theory Spec2Isabelle
  imports Complex_Main "HOL-Library.AList"
begin

section \<open>Data model of \<^verbatim>\<open>shapash/explainer/smart_predictor.py\<close>\<close>

text \<open>
  The module defines one class, \<^verbatim>\<open>SmartPredictor\<close>. Its instance attributes fall in two
  groups: those fixed by \<^verbatim>\<open>__init__\<close> (configuration dicts, the model, the explainer, the
  preprocessing) and those created or mutated by the methods (\<^verbatim>\<open>data\<close>, \<^verbatim>\<open>state\<close>,
  \<^verbatim>\<open>summary\<close>, \<^verbatim>\<open>mask\<close>, \<^verbatim>\<open>masked_contributions\<close>, and the contents of \<^verbatim>\<open>mask_params\<close>).
  The first group is the record \<open>env\<close>, the second the record \<open>predictor\<close>; every method is a
  function from the predictor to a result and the predictor it leaves behind, so that what
  a method has written before it raises stays written, as in Python.
\<close>

subsection \<open>Python values\<close>

text \<open>A cell of a dataset: pandas stores missing values, booleans, integers, floats and
  objects (strings).\<close>

datatype cell = Null | B bool | I int | F real | S string

text \<open>A \<^verbatim>\<open>pandas.DataFrame\<close>: the row keys and, column by column, the column's name, the
  string of its dtype and its values.\<close>

datatype 'v dataframe =
  DataFrame (df_index: "int list") (df_columns: "(string \<times> string \<times> 'v list) list")

type_synonym frame = "cell dataframe"
type_synonym mask_frame = "bool dataframe"

text \<open>A Python \<^verbatim>\<open>dict\<close>: an association list in insertion order. Reading is \<open>map_of\<close>
  (\<open>None\<close> is Python's \<^verbatim>\<open>KeyError\<close>), writing is \<open>AList.update\<close>, which overwrites a key
  in place and appends a new one, as \<^verbatim>\<open>d[k] = v\<close> does.\<close>

type_synonym ('k, 'v) dict = "('k \<times> 'v) list"

text \<open>The exceptions of the module. Every \<^verbatim>\<open>raise\<close> of the source is a \<^verbatim>\<open>ValueError\<close>
  carrying a message (leading and trailing white space of the triple-quoted messages is
  dropped here); \<^verbatim>\<open>assert\<close> raises \<^verbatim>\<open>AssertionError\<close>; a missing dict key raises
  \<^verbatim>\<open>KeyError\<close> with the key, and so does pandas for column labels that a table does not
  have, with a message in place of the key; a missing attribute raises
  \<^verbatim>\<open>AttributeError\<close> with its name; \<open>External\<close> stands for whatever else a collaborator
  (model, explainer, encoder, pandas) raises.\<close>

datatype error =
  ValueError string
  | KeyError cell
  | AttributeError string
  | AssertionError
  | External string

datatype 'a result = Return 'a | Raise error

text \<open>What the dict \<^verbatim>\<open>self.data\<close> holds under a key: \<^verbatim>\<open>None\<close>, a table of dataset
  cells (\<^verbatim>\<open>x\<close>, \<^verbatim>\<open>x_preprocessed\<close>, \<^verbatim>\<open>ypred\<close>, \<^verbatim>\<open>summary\<close>) or a numeric table
  (\<^verbatim>\<open>contributions\<close>).\<close>

datatype pyval = PyNone | Frame frame | NumFrame "real dataframe"

text \<open>Contributions as the caller or the explainer hands them over: one table, or a Python
  list of tables (one per class).\<close>

datatype contributions = Table "real dataframe" | TableList "real dataframe list"

text \<open>The argument \<^verbatim>\<open>x\<close> of \<^verbatim>\<open>add_input\<close>: a DataFrame, a dict, or a value of any
  other type.\<close>

datatype x_input = XDataFrame frame | XDict "(string, cell) dict" | XOther

text \<open>A value of \<^verbatim>\<open>mask_params\<close> or an argument of \<^verbatim>\<open>modify_mask\<close>: \<^verbatim>\<open>None\<close>, a list
  of feature names, a float, a bool or an int.\<close>

datatype param = PNone | PStrs "string list" | PFloat real | PBool bool | PInt int

text \<open>\<^verbatim>\<open>choose_state\<close> returns \<^verbatim>\<open>SmartState()\<close> or \<^verbatim>\<open>MultiDecorator(SmartState())\<close>.\<close>

datatype smart_state = SmartState | MultiDecorator

subsection \<open>The predictor: attributes that the methods create and mutate\<close>

text \<open>\<open>None\<close> in an option field says that the attribute does not exist yet
  (\<^verbatim>\<open>hasattr(self, "data")\<close> is false). \<^verbatim>\<open>self.summary\<close> is the dict built by
  \<^verbatim>\<open>assign_contributions\<close>; the source reads its keys \<^verbatim>\<open>contrib_sorted\<close>,
  \<^verbatim>\<open>var_dict\<close> and \<^verbatim>\<open>x_sorted\<close>.\<close>

record ranked =
  contrib_sorted :: "real dataframe"
  x_sorted :: frame
  var_dict :: "int dataframe"

record predictor =
  data :: "(string, pyval) dict option"
  mask_params :: "(string, param) dict"
  state :: "smart_state option"
  summary :: "ranked option"
  mask :: "mask_frame option"
  masked_contributions :: "real dataframe option"

text \<open>The predictor that \<^verbatim>\<open>__init__\<close> leaves: only \<^verbatim>\<open>mask_params\<close> is set among the
  mutable attributes. The default argument is the dict with the four keys at \<^verbatim>\<open>None\<close>.\<close>

definition default_mask_params :: "(string, param) dict" where
  "default_mask_params =
     [(''features_to_hide'', PNone), (''threshold'', PNone),
      (''positive'', PNone), (''max_contrib'', PNone)]"

definition init_predictor :: "(string, param) dict \<Rightarrow> predictor" where
  "init_predictor mp =
     \<lparr>data = None, mask_params = mp, state = None, summary = None, mask = None,
      masked_contributions = None\<rparr>"

subsection \<open>The environment: attributes fixed by \<^verbatim>\<open>__init__\<close>, and the collaborators\<close>

text \<open>
  No method of the class assigns \<^verbatim>\<open>_case\<close>, \<^verbatim>\<open>features_types\<close>, \<^verbatim>\<open>columns_dict\<close>,
  \<^verbatim>\<open>features_dict\<close>, \<^verbatim>\<open>model\<close>, \<^verbatim>\<open>explainer\<close> or \<^verbatim>\<open>preprocessing\<close> after
  \<^verbatim>\<open>__init__\<close>. The module imports its helpers from other modules of the package
  (\<^verbatim>\<open>shapash.utils\<close>, \<^verbatim>\<open>shapash.manipulation\<close>, \<^verbatim>\<open>shapash.decomposition\<close>) and
  calls the model and pandas; what these compute is not decided by this module, so each
  is a field of the environment: any function that returns a value or raises. Arguments
  that the source passes along unchanged (\<^verbatim>\<open>self.model\<close>, \<^verbatim>\<open>self.explainer\<close>,
  \<^verbatim>\<open>self.preprocessing\<close>, \<^verbatim>\<open>self._classes\<close>, \<^verbatim>\<open>self.label_dict\<close>) are part of the
  function.

  \<^verbatim>\<open>apply_preprocessing\<close> of \<^verbatim>\<open>shapash.utils.transform\<close> is handed the table stored
  under \<^verbatim>\<open>self.data["x"]\<close> itself, not a copy, and an encoder may write into the table it
  is given. So this helper yields two things: what it returns or raises, and the content it
  leaves in the table it was handed, whether it returns or raises. No other name refers to
  that table (\<^verbatim>\<open>x[features_order]\<close> has built it anew), so the write is a write to the
  entry \<^verbatim>\<open>x\<close> of \<^verbatim>\<open>self.data\<close>. The other helpers are taken to read their arguments
  only.
\<close>

record env =
  model_case :: string
    \<comment> \<open>\<^verbatim>\<open>self._case\<close>\<close>
  features_types :: "(string, string) dict"
  columns_dict :: "(int, string) dict"
  features_dict :: "(string, string) dict"
  preprocessing_truthy :: bool
    \<comment> \<open>the truth value of \<^verbatim>\<open>self.preprocessing\<close>\<close>
  frame_from_dict :: "(string, cell) dict \<Rightarrow> frame result"
    \<comment> \<open>\<^verbatim>\<open>pd.DataFrame.from_dict(x, orient="index").T\<close> followed by the \<^verbatim>\<open>astype\<close> loop\<close>
  not_in_index :: "string list \<Rightarrow> string list \<Rightarrow> string"
    \<comment> \<open>the message of the \<^verbatim>\<open>KeyError\<close> of pandas for \<^verbatim>\<open>x[labels]\<close>, from the column labels
       of \<^verbatim>\<open>x\<close> and the labels asked for\<close>
  apply_preprocessing_fn :: "pyval \<Rightarrow> frame result \<times> pyval"
    \<comment> \<open>\<^verbatim>\<open>shapash.utils.transform.apply_preprocessing(x, self.model, self.preprocessing)\<close>:
       the outcome, and the content left in the table \<^verbatim>\<open>x\<close>\<close>
  check_ypred_fn :: "pyval \<Rightarrow> frame \<Rightarrow> pyval result"
    \<comment> \<open>\<^verbatim>\<open>shapash.utils.check.check_ypred(x, ypred)\<close>\<close>
  model_predict :: "(pyval \<Rightarrow> frame result) option"
    \<comment> \<open>\<open>None\<close>: the model has no attribute \<^verbatim>\<open>predict\<close>; otherwise
       \<^verbatim>\<open>pd.DataFrame(self.model.predict(xp), columns=['ypred'], index=xp.index)\<close>\<close>
  predict_proba_fn :: "pyval \<Rightarrow> pyval result"
    \<comment> \<open>\<^verbatim>\<open>shapash.utils.model.predict_proba(self.model, xp, self._classes)\<close>\<close>
  shap_contributions :: "pyval \<Rightarrow> contributions result"
    \<comment> \<open>first component of \<^verbatim>\<open>shap_contributions(self.model, xp, self.explainer)\<close>\<close>
  check_contribution_object :: "contributions \<Rightarrow> unit result"
  state_validate_contributions :: "smart_state \<Rightarrow> contributions \<Rightarrow> pyval \<Rightarrow> contributions result"
  state_inverse_transform_contributions :: "smart_state \<Rightarrow> contributions \<Rightarrow> contributions result"
  state_check_contributions :: "smart_state \<Rightarrow> contributions \<Rightarrow> pyval \<Rightarrow> bool result"
  keep_right_contributions ::
    "pyval \<Rightarrow> contributions \<Rightarrow> pyval \<Rightarrow> (frame \<times> real dataframe) result"
  rank_contributions ::
    "pyval \<Rightarrow> pyval \<Rightarrow> (real dataframe \<times> frame \<times> int dataframe) result"
  cap_contributions :: "pyval \<Rightarrow> param \<Rightarrow> mask_frame result"
  sign_contributions :: "real dataframe \<Rightarrow> param \<Rightarrow> mask_frame result"
  cutoff_contributions :: "mask_frame \<Rightarrow> param \<Rightarrow> mask_frame result"
  compute_masked_contributions :: "real dataframe \<Rightarrow> mask_frame \<Rightarrow> real dataframe result"
  summarize_fn ::
    "real dataframe \<Rightarrow> int dataframe \<Rightarrow> frame \<Rightarrow> mask_frame \<Rightarrow> (int, string) dict \<Rightarrow>
     (string, string) dict \<Rightarrow> frame result"
    \<comment> \<open>\<^verbatim>\<open>shapash.manipulation.summarize.summarize\<close>\<close>
  pd_concat :: "pyval list \<Rightarrow> frame result"
    \<comment> \<open>\<^verbatim>\<open>pd.concat([...], axis=1)\<close>\<close>

subsection \<open>Sequencing and dict access\<close>

text \<open>Statements in sequence: the second runs on the value of the first unless the first
  raised.\<close>

definition bind :: "'a result \<Rightarrow> ('a \<Rightarrow> 'b result) \<Rightarrow> 'b result" where
  "bind r f = (case r of Raise er \<Rightarrow> Raise er | Return v \<Rightarrow> f v)"

text \<open>\<^verbatim>\<open>d[k]\<close> on a dict with string keys.\<close>

definition getitem :: "(string, 'v) dict \<Rightarrow> string \<Rightarrow> 'v result" where
  "getitem d k = (case map_of d k of None \<Rightarrow> Raise (KeyError (S k)) | Some v \<Rightarrow> Return v)"

text \<open>\<^verbatim>\<open>self.data[k]\<close>: the attribute must exist, then the key.\<close>

definition data_getitem :: "predictor \<Rightarrow> string \<Rightarrow> pyval result" where
  "data_getitem s k =
     (case data s of None \<Rightarrow> Raise (AttributeError ''data'') | Some d \<Rightarrow> getitem d k)"

text \<open>\<^verbatim>\<open>self.data[k] = v\<close>; the callers have read \<^verbatim>\<open>self.data\<close> before.\<close>

definition data_setitem :: "predictor \<Rightarrow> string \<Rightarrow> pyval \<Rightarrow> predictor" where
  "data_setitem s k v =
     (case data s of None \<Rightarrow> s | Some d \<Rightarrow> s\<lparr>data := Some (AList.update k v d)\<rparr>)"

text \<open>The truth value of a generator object. The source writes
  \<^verbatim>\<open>if not (cond for v in vs): raise ...\<close> twice; Python does not run the generator
  there, it tests the generator object, which is true whatever it would yield.\<close>

definition generator_truthy :: "bool list \<Rightarrow> bool" where
  "generator_truthy g = True"

subsection \<open>Helpers of other modules that the claims are about\<close>

text \<open>Modelled from the spec: \<^verbatim>\<open>shapash.utils.transform.adapt_contributions\<close> is not in
  the sources. The spec: ``if case is classification and input is a single table/array,
  convert to a two-element sequence \<^verbatim>\<open>[-contributions, contributions]\<close>''; any other
  input is returned as it is.\<close>

definition neg_table :: "real dataframe \<Rightarrow> real dataframe" where
  "neg_table t = DataFrame (df_index t) (map (\<lambda>(n, d, vs). (n, d, map uminus vs)) (df_columns t))"

definition adapt_contributions_fn :: "string \<Rightarrow> contributions \<Rightarrow> contributions" where
  "adapt_contributions_fn case_name contributions =
     (case contributions of
        Table t \<Rightarrow>
          if case_name = ''classification'' then TableList [neg_table t, t] else contributions
      | TableList ts \<Rightarrow> contributions)"

text \<open>Modelled from the spec: \<^verbatim>\<open>shapash.manipulation.mask.init_mask\<close> is not in the
  sources. The spec: the base mask is an ``always-\<^verbatim>\<open>True\<close> table of the same shape''; the
  source calls it with the value \<^verbatim>\<open>True\<close>.\<close>

definition init_mask :: "'v dataframe \<Rightarrow> bool \<Rightarrow> mask_frame" where
  "init_mask t v =
     DataFrame (df_index t)
       (map (\<lambda>(n, d, vs). (n, ''bool'', replicate (length (df_index t)) v)) (df_columns t))"

text \<open>Modelled from the spec: \<^verbatim>\<open>shapash.manipulation.filters.combine_masks\<close> is not in
  the sources. The spec: ``element-wise AND across all active filter masks''; the masks
  are ``aligned to the ranked contribution table (same shape)''. The labels are those of
  the first mask. The source never passes the empty list.\<close>

definition mask_and :: "mask_frame \<Rightarrow> mask_frame \<Rightarrow> mask_frame" where
  "mask_and a b =
     DataFrame (df_index a)
       (map2 (\<lambda>(n, d, vs) (n', d', ws). (n, d, map2 (\<and>) vs ws)) (df_columns a) (df_columns b))"

definition combine_masks :: "mask_frame list \<Rightarrow> mask_frame" where
  "combine_masks masks_list =
     (case masks_list of [] \<Rightarrow> DataFrame [] [] | m # ms \<Rightarrow> foldl mask_and m ms)"

text \<open>Modelled from the spec: \<^verbatim>\<open>shapash.decomposition.contributions.assign_contributions\<close>
  is not in the sources. It packs the three tables of the ranker (contributions, values and
  feature identifiers, each in rank order) into the dict whose keys \<^verbatim>\<open>summarize\<close> and
  \<^verbatim>\<open>filter\<close> read.\<close>

definition assign_contributions :: "real dataframe \<times> frame \<times> int dataframe \<Rightarrow> ranked" where
  "assign_contributions r =
     (case r of (c, x, v) \<Rightarrow> \<lparr>contrib_sorted = c, x_sorted = x, var_dict = v\<rparr>)"



subsection \<open>Validation of the dataset\<close>

text \<open>
  \<^verbatim>\<open>
  def convert_dict_dataset(self, x):
      if type(x) == dict:
          try:
              if not all(column in self.features_types.keys() for column in x.keys()):
                  raise ValueError(...)
              x = pd.DataFrame.from_dict(x, orient="index").T
              for feature, type_feature in self.features_types.items():
                  x[feature] = x[feature].astype(type_feature)
          except BaseException:
              raise ValueError("The structure of the given dict x isn't at the right format.")
      return x
  \<close>
\<close>

definition dict_structure_message :: string where
  "dict_structure_message = ''The structure of the given dict x isn't at the right format.''"

definition convert_dict_dataset :: "env \<Rightarrow> x_input \<Rightarrow> x_input result" where
  "convert_dict_dataset e x =
     (case x of
        XDict d \<Rightarrow>
          if \<not> list_all (\<lambda>column. column \<in> set (map fst (features_types e))) (map fst d)
          then Raise (ValueError dict_structure_message)
          else (case frame_from_dict e d of
                  Raise er \<Rightarrow> Raise (ValueError dict_structure_message)
                | Return f \<Rightarrow> Return (XDataFrame f))
      | _ \<Rightarrow> Return x)"

text \<open>
  \<^verbatim>\<open>
  def check_dataset_type(self, x=None):
      if not (type(x) in [pd.DataFrame, dict]):
          raise ValueError("x must be a dict or a pandas.DataFrame.")
      else :
          x = self.convert_dict_dataset(x)
      return x
  \<close>
\<close>

definition check_dataset_type :: "env \<Rightarrow> x_input \<Rightarrow> x_input result" where
  "check_dataset_type e x =
     (case x of
        XOther \<Rightarrow> Raise (ValueError ''x must be a dict or a pandas.DataFrame.'')
      | _ \<Rightarrow> convert_dict_dataset e x)"

text \<open>\<^verbatim>\<open>x[features_order]\<close>, the selection of pandas by a list of labels: for each label
  in turn, every column of \<^verbatim>\<open>x\<close> that carries it (a label that two columns carry
  selects both). When some label is no column of \<^verbatim>\<open>x\<close>, pandas raises a \<^verbatim>\<open>KeyError\<close>
  whose argument is a message that it composes from the labels.\<close>

definition select_columns ::
  "(string \<times> string \<times> 'v list) list \<Rightarrow> string list \<Rightarrow> (string \<times> string \<times> 'v list) list" where
  "select_columns cs names = concat (map (\<lambda>n. filter (\<lambda>c. fst c = n) cs) names)"

definition getitem_columns :: "env \<Rightarrow> 'v dataframe \<Rightarrow> string list \<Rightarrow> 'v dataframe result" where
  "getitem_columns e x names =
     (if list_all (\<lambda>n. n \<in> set (map fst (df_columns x))) names
      then Return (DataFrame (df_index x) (select_columns (df_columns x) names))
      else Raise (KeyError (S (not_in_index e (map fst (df_columns x)) names))))"

text \<open>The loop that builds \<^verbatim>\<open>features_order\<close>:
  \<^verbatim>\<open>for order in range(min(keys), max(keys) + 1): features_order.append(self.columns_dict[order])\<close>.
  \<^verbatim>\<open>min\<close> of no keys raises \<^verbatim>\<open>ValueError\<close>; a key missing in the range raises
  \<^verbatim>\<open>KeyError\<close>.\<close>

fun lookup_orders :: "(int, string) dict \<Rightarrow> int list \<Rightarrow> string list result" where
  "lookup_orders cd [] = Return []"
| "lookup_orders cd (order # orders) =
     (case map_of cd order of
        None \<Rightarrow> Raise (KeyError (I order))
      | Some name \<Rightarrow> bind (lookup_orders cd orders) (\<lambda>r. Return (name # r)))"

definition features_order :: "(int, string) dict \<Rightarrow> string list result" where
  "features_order cd =
     (case map fst cd of
        [] \<Rightarrow> Raise (ValueError ''min() arg is an empty sequence'')
      | k # ks \<Rightarrow> lookup_orders cd [fold min ks k .. fold max ks k])"

text \<open>
  \<^verbatim>\<open>
  def check_dataset_features(self, x):
      assert all(column in self.columns_dict.values() for column in x.columns)
      if not (type(key) == int for key in self.columns_dict.keys()):
          raise ValueError("columns_dict must have only integers keys for features order.")
      features_order = []
      for order in range(min(self.columns_dict.keys()), max(self.columns_dict.keys()) + 1):
          features_order.append(self.columns_dict[order])
      x = x[features_order]
      assert all(column in self.features_types.keys() for column in x.columns)
      if not(str(x[feature].dtypes) == self.features_types[feature] for feature in x.columns):
          raise ValueError("Types of features in x doesn't match with the expected one in features_types.")
      return x
  \<close>
  Both \<^verbatim>\<open>if not (... for ... in ...)\<close> test a generator object. The keys of
  \<open>columns_dict\<close> are integers by the type of the model, so \<^verbatim>\<open>type(key) == int\<close> is
  \<open>True\<close> for each. The elements of the second generator are never computed by Python; the
  model writes them with \<open>map_of\<close>, where a missing key would be \<open>None\<close>.
\<close>

definition types_message :: string where
  "types_message =
     ''Types of features in x doesn't match with the expected one in features_types.''"

definition check_dataset_features :: "env \<Rightarrow> x_input \<Rightarrow> frame result" where
  "check_dataset_features e x =
     (case x of
        XDataFrame f \<Rightarrow>
          if \<not> list_all (\<lambda>column. column \<in> set (map snd (columns_dict e))) (map fst (df_columns f))
          then Raise AssertionError
          else if \<not> generator_truthy (map (\<lambda>key. True) (map fst (columns_dict e)))
          then Raise (ValueError ''columns_dict must have only integers keys for features order.'')
          else bind (features_order (columns_dict e)) (\<lambda>order.
               bind (getitem_columns e f order) (\<lambda>x'.
                 if \<not> list_all (\<lambda>column. column \<in> set (map fst (features_types e)))
                        (map fst (df_columns x'))
                 then Raise AssertionError
                 else if \<not> generator_truthy
                            (map (\<lambda>(feature, dtypes, vs). Some dtypes = map_of (features_types e) feature)
                               (df_columns x'))
                 then Raise (ValueError types_message)
                 else Return x'))
      | _ \<Rightarrow> Raise (AttributeError ''columns''))"

subsection \<open>\<^verbatim>\<open>clean_data\<close>, \<^verbatim>\<open>apply_preprocessing\<close>, \<^verbatim>\<open>check_ypred\<close>, \<^verbatim>\<open>predict\<close>\<close>

definition clean_data :: "frame \<Rightarrow> (string, pyval) dict" where
  "clean_data x =
     [(''x'', Frame x), (''ypred'', PyNone), (''contributions'', PyNone),
      (''x_preprocessed'', PyNone)]"

text \<open>\<^verbatim>\<open>return apply_preprocessing(self.data["x"], self.model, self.preprocessing)\<close>.
  The helper works on the stored table; what it leaves there is what \<^verbatim>\<open>self.data["x"]\<close>
  holds afterwards.\<close>

definition apply_preprocessing :: "env \<Rightarrow> predictor \<Rightarrow> frame result \<times> predictor" where
  "apply_preprocessing e s =
     (case data_getitem s ''x'' of
        Raise er \<Rightarrow> (Raise er, s)
      | Return x \<Rightarrow>
          (case apply_preprocessing_fn e x of
             (r, x_left) \<Rightarrow> (r, data_setitem s ''x'' x_left)))"

text \<open>\<^verbatim>\<open>return check_ypred(self.data["x"], ypred)\<close>\<close>

definition check_ypred :: "env \<Rightarrow> predictor \<Rightarrow> frame \<Rightarrow> pyval result" where
  "check_ypred e s ypred = bind (data_getitem s ''x'') (\<lambda>x. check_ypred_fn e x ypred)"

text \<open>\<^verbatim>\<open>return predict_proba(self.model, self.data["x_preprocessed"], self._classes)\<close>\<close>

definition predict_proba :: "env \<Rightarrow> predictor \<Rightarrow> pyval result" where
  "predict_proba e s = bind (data_getitem s ''x_preprocessed'') (predict_proba_fn e)"

text \<open>
  \<^verbatim>\<open>
  def predict(self):
      if not hasattr(self, "data"):
          raise ValueError("add_input method must be called at least once.")
      if self.data["x_preprocessed"] is None:
          raise ValueError("x must be specified in an add_input method to apply predict.")
      if hasattr(self.model, 'predict'):
          self.data["ypred"] = pd.DataFrame(self.model.predict(self.data["x_preprocessed"]),
                                            columns=['ypred'], index=self.data["x_preprocessed"].index)
      else:
          raise ValueError("model has no predict method")
      return self.data["ypred"]
  \<close>
\<close>

definition add_input_first_message :: string where
  "add_input_first_message = ''add_input method must be called at least once.''"

definition no_predict_message :: string where
  "no_predict_message = ''model has no predict method''"

definition predict :: "env \<Rightarrow> predictor \<Rightarrow> pyval result \<times> predictor" where
  "predict e s =
     (case data s of
        None \<Rightarrow> (Raise (ValueError add_input_first_message), s)
      | Some d \<Rightarrow>
          (case getitem d ''x_preprocessed'' of
             Raise er \<Rightarrow> (Raise er, s)
           | Return xp \<Rightarrow>
               if xp = PyNone
               then (Raise (ValueError ''x must be specified in an add_input method to apply predict.''), s)
               else (case model_predict e of
                       None \<Rightarrow> (Raise (ValueError no_predict_message), s)
                     | Some p \<Rightarrow>
                         (case p xp of
                            Raise er \<Rightarrow> (Raise er, s)
                          | Return y \<Rightarrow> (Return (Frame y), data_setitem s ''ypred'' (Frame y))))))"

subsection \<open>\<^verbatim>\<open>compute_contributions\<close> and \<^verbatim>\<open>detail_contributions\<close>\<close>

definition choose_state :: "contributions \<Rightarrow> smart_state" where
  "choose_state contributions =
     (case contributions of TableList ts \<Rightarrow> MultiDecorator | Table t \<Rightarrow> SmartState)"

definition adapt_contributions :: "env \<Rightarrow> contributions \<Rightarrow> contributions" where
  "adapt_contributions e contributions = adapt_contributions_fn (model_case e) contributions"

text \<open>\<^verbatim>\<open>self.state\<close> is read by the three methods below; \<^verbatim>\<open>compute_contributions\<close>
  has set it before it calls them.\<close>

definition get_state :: "predictor \<Rightarrow> smart_state result" where
  "get_state s = (case state s of None \<Rightarrow> Raise (AttributeError ''state'') | Some st \<Rightarrow> Return st)"

definition validate_contributions :: "env \<Rightarrow> predictor \<Rightarrow> contributions \<Rightarrow> contributions result" where
  "validate_contributions e s contributions =
     bind (check_contribution_object e contributions) (\<lambda>u.
     bind (get_state s) (\<lambda>st.
     bind (data_getitem s ''x_preprocessed'') (\<lambda>xp.
       state_validate_contributions e st contributions xp)))"

definition check_contributions_message :: string where
  "check_contributions_message =
     ''Prediction set and contributions should have exactly the same number of lines and number of columns. the order of the columns must be the same Please check x, contributions and preprocessing arguments.''"

definition check_contributions :: "env \<Rightarrow> predictor \<Rightarrow> contributions \<Rightarrow> unit result" where
  "check_contributions e s contributions =
     bind (get_state s) (\<lambda>st.
     bind (data_getitem s ''x'') (\<lambda>x.
     bind (state_check_contributions e st contributions x) (\<lambda>ok.
       if \<not> ok then Raise (ValueError check_contributions_message) else Return ())))"

definition apply_preprocessing_for_contributions ::
  "env \<Rightarrow> predictor \<Rightarrow> contributions \<Rightarrow> contributions result" where
  "apply_preprocessing_for_contributions e s contributions =
     (if preprocessing_truthy e
      then bind (get_state s) (\<lambda>st. state_inverse_transform_contributions e st contributions)
      else Return contributions)"

text \<open>
  \<^verbatim>\<open>
  def compute_contributions(self, contributions=None):
      if not hasattr(self, "data"):
          raise ValueError("add_input method must be called at least once.")
      if self.data["x"] is None:
          raise ValueError("x must be specified in an add_input method to apply detail_contributions.")
      if self.data["ypred"] is None:
          self.predict()
      if contributions is None:
          contributions, explainer = shap_contributions(self.model, self.data["x_preprocessed"],
                                                        self.explainer)
      adapt_contrib = self.adapt_contributions(contributions)
      self.state = self.choose_state(adapt_contrib)
      contributions = self.validate_contributions(adapt_contrib)
      contributions = self.apply_preprocessing_for_contributions(contributions, self.preprocessing)
      self.check_contributions(contributions)
      proba_values = self.predict_proba() if self._case == "classification" else None
      y_pred, match_contrib = keep_right_contributions(self.data["ypred"], contributions, self._case,
                                   self._classes, self.label_dict, proba_values)
      return y_pred, match_contrib
  \<close>
  The model follows the source in three steps: the guards with the call of \<^verbatim>\<open>predict\<close>,
  the choice of the contributions, and the part from \<^verbatim>\<open>adapt_contributions\<close> on.
\<close>

definition no_x_message :: string where
  "no_x_message = ''x must be specified in an add_input method to apply detail_contributions.''"

definition contributions_guards :: "env \<Rightarrow> predictor \<Rightarrow> unit result \<times> predictor" where
  "contributions_guards e s =
     (case data s of
        None \<Rightarrow> (Raise (ValueError add_input_first_message), s)
      | Some d \<Rightarrow>
          (case getitem d ''x'' of
             Raise er \<Rightarrow> (Raise er, s)
           | Return x \<Rightarrow>
               if x = PyNone
               then (Raise (ValueError no_x_message), s)
               else (case getitem d ''ypred'' of
                       Raise er \<Rightarrow> (Raise er, s)
                     | Return yp \<Rightarrow>
                         if yp = PyNone
                         then (case predict e s of
                                 (Raise er, s') \<Rightarrow> (Raise er, s')
                               | (Return y, s') \<Rightarrow> (Return (), s'))
                         else (Return (), s))))"

definition raw_contributions :: "env \<Rightarrow> predictor \<Rightarrow> contributions option \<Rightarrow> contributions result" where
  "raw_contributions e s contributions =
     (case contributions of
        None \<Rightarrow> bind (data_getitem s ''x_preprocessed'') (shap_contributions e)
      | Some c \<Rightarrow> Return c)"

definition match_contributions ::
  "env \<Rightarrow> predictor \<Rightarrow> contributions \<Rightarrow> (frame \<times> real dataframe) result" where
  "match_contributions e s adapt_contrib =
     bind (validate_contributions e s adapt_contrib) (\<lambda>contributions.
     bind (apply_preprocessing_for_contributions e s contributions) (\<lambda>contributions.
     bind (check_contributions e s contributions) (\<lambda>u.
     bind (if model_case e = ''classification'' then predict_proba e s else Return PyNone)
       (\<lambda>proba_values.
     bind (data_getitem s ''ypred'') (\<lambda>ypred.
       keep_right_contributions e ypred contributions proba_values)))))"

definition compute_contributions ::
  "env \<Rightarrow> contributions option \<Rightarrow> predictor \<Rightarrow> (frame \<times> real dataframe) result \<times> predictor" where
  "compute_contributions e contributions s =
     (case contributions_guards e s of
        (Raise er, s1) \<Rightarrow> (Raise er, s1)
      | (Return u, s1) \<Rightarrow>
          (case raw_contributions e s1 contributions of
             Raise er \<Rightarrow> (Raise er, s1)
           | Return c \<Rightarrow>
               (let adapt_contrib = adapt_contributions e c;
                    s2 = s1\<lparr>state := Some (choose_state adapt_contrib)\<rparr>
                in (match_contributions e s2 adapt_contrib, s2))))"

text \<open>
  \<^verbatim>\<open>
  def detail_contributions(self, contributions=None):
      y_pred, summary = self.compute_contributions(contributions=contributions)
      return pd.concat([y_pred, summary], axis=1)
  \<close>
\<close>

definition detail_contributions ::
  "env \<Rightarrow> contributions option \<Rightarrow> predictor \<Rightarrow> frame result \<times> predictor" where
  "detail_contributions e contributions s =
     (case compute_contributions e contributions s of
        (Raise er, s1) \<Rightarrow> (Raise er, s1)
      | (Return (y_pred, summ), s1) \<Rightarrow> (pd_concat e [Frame y_pred, NumFrame summ], s1))"

subsection \<open>\<^verbatim>\<open>add_input\<close>\<close>

text \<open>
  \<^verbatim>\<open>
  def add_input(self, x=None, ypred=None, contributions=None):
      if x is not None:
          x = self.check_dataset_features(self.check_dataset_type(x))
          self.data = self.clean_data(x)
          try :
              self.data["x_preprocessed"] = self.apply_preprocessing()
          except BaseException :
              raise ValueError("Preprocessing has failed. The preprocessing specified or the dataset doesn't match.")
      else:
          if not hasattr(self,"data"):
              raise ValueError ("No dataset x specified.")
      if ypred is not None:
          self.data["ypred"] = self.check_ypred(ypred)
      if contributions is not None:
          self.data["ypred"], self.data["contributions"] = self.compute_contributions(contributions=contributions)
      else:
          self.data["ypred"], self.data["contributions"]  = self.compute_contributions()
  \<close>
  One definition for each of the three \<^verbatim>\<open>if\<close> statements. The two branches of the last
  one make the same call, since \<^verbatim>\<open>None\<close> is the default of the parameter.
\<close>

definition preprocessing_message :: string where
  "preprocessing_message =
     ''Preprocessing has failed. The preprocessing specified or the dataset doesn't match.''"

definition add_input_x :: "env \<Rightarrow> x_input option \<Rightarrow> predictor \<Rightarrow> unit result \<times> predictor" where
  "add_input_x e x s =
     (case x of
        Some xv \<Rightarrow>
          (case bind (check_dataset_type e xv) (check_dataset_features e) of
             Raise er \<Rightarrow> (Raise er, s)
           | Return x' \<Rightarrow>
               (let s1 = s\<lparr>data := Some (clean_data x')\<rparr>
                in (case apply_preprocessing e s1 of
                      (Raise er, s2) \<Rightarrow> (Raise (ValueError preprocessing_message), s2)
                    | (Return xp, s2) \<Rightarrow>
                        (Return (), data_setitem s2 ''x_preprocessed'' (Frame xp)))))
      | None \<Rightarrow>
          if data s = None then (Raise (ValueError ''No dataset x specified.''), s)
          else (Return (), s))"

definition add_input_ypred :: "env \<Rightarrow> frame option \<Rightarrow> predictor \<Rightarrow> unit result \<times> predictor" where
  "add_input_ypred e ypred s =
     (case ypred of
        None \<Rightarrow> (Return (), s)
      | Some y \<Rightarrow>
          (case check_ypred e s y of
             Raise er \<Rightarrow> (Raise er, s)
           | Return v \<Rightarrow> (Return (), data_setitem s ''ypred'' v)))"

definition add_input_contributions ::
  "env \<Rightarrow> contributions option \<Rightarrow> predictor \<Rightarrow> unit result \<times> predictor" where
  "add_input_contributions e contributions s =
     (case compute_contributions e contributions s of
        (Raise er, s1) \<Rightarrow> (Raise er, s1)
      | (Return (y_pred, match_contrib), s1) \<Rightarrow>
          (Return (),
           data_setitem (data_setitem s1 ''ypred'' (Frame y_pred)) ''contributions''
             (NumFrame match_contrib)))"

definition add_input ::
  "env \<Rightarrow> x_input option \<Rightarrow> frame option \<Rightarrow> contributions option \<Rightarrow> predictor \<Rightarrow>
   unit result \<times> predictor" where
  "add_input e x ypred contributions s =
     (case add_input_x e x s of
        (Raise er, s1) \<Rightarrow> (Raise er, s1)
      | (Return u, s1) \<Rightarrow>
          (case add_input_ypred e ypred s1 of
             (Raise er, s2) \<Rightarrow> (Raise er, s2)
           | (Return u, s2) \<Rightarrow> add_input_contributions e contributions s2))"

subsection \<open>\<^verbatim>\<open>filter\<close> and \<^verbatim>\<open>summarize\<close>\<close>

text \<open>
  \<^verbatim>\<open>
  def filter(self):
      mask = [init_mask(self.summary['contrib_sorted'], True)]
      if self.mask_params["features_to_hide"] is not None:
          mask.append(hide_contributions(self.data['var_dict'],
                  features_list=self.check_features_name(self.mask_params["features_to_hide"])))
      if self.mask_params["threshold"] is not None:
          mask.append(cap_contributions(self.data['contrib_sorted'],
                  threshold=self.mask_params["threshold"]))
      if self.mask_params["positive"] is not None:
          mask.append(sign_contributions(self.summary['contrib_sorted'],
                  positive=self.mask_params["positive"]))
      self.mask = combine_masks(mask)
      if self.mask_params["max_contrib"] is not None:
          self.mask = cutoff_contributions(mask=self.mask, k=self.mask_params["max_contrib"])
      self.masked_contributions = compute_masked_contributions(self.summary['contrib_sorted'], self.mask)
  \<close>
  \<open>active_masks\<close> is the list \<^verbatim>\<open>mask\<close> when \<^verbatim>\<open>combine_masks\<close> is reached. Python
  evaluates the arguments of a call from left to right: \<^verbatim>\<open>self.data['var_dict']\<close> is
  read before \<^verbatim>\<open>self.check_features_name\<close>, a method that the class does not define
  (the class has no base class), so \<^verbatim>\<open>hide_contributions\<close> is never entered.
\<close>

definition active_masks :: "env \<Rightarrow> predictor \<Rightarrow> mask_frame list result" where
  "active_masks e s =
     (case summary s of
        None \<Rightarrow> Raise (AttributeError ''summary'')
      | Some sm \<Rightarrow>
          bind (Return [init_mask (contrib_sorted sm) True]) (\<lambda>mask0.
          bind (getitem (mask_params s) ''features_to_hide'') (\<lambda>fh.
          bind (if fh \<noteq> PNone
                then bind (data_getitem s ''var_dict'')
                       (\<lambda>vd. Raise (AttributeError ''check_features_name''))
                else Return mask0) (\<lambda>mask1.
          bind (getitem (mask_params s) ''threshold'') (\<lambda>th.
          bind (if th \<noteq> PNone
                then bind (data_getitem s ''contrib_sorted'') (\<lambda>cs.
                     bind (cap_contributions e cs th) (\<lambda>m. Return (mask1 @ [m])))
                else Return mask1) (\<lambda>mask2.
          bind (getitem (mask_params s) ''positive'') (\<lambda>po.
            if po \<noteq> PNone
            then bind (sign_contributions e (contrib_sorted sm) po) (\<lambda>m. Return (mask2 @ [m]))
            else Return mask2)))))))"

definition cutoff_mask :: "env \<Rightarrow> predictor \<Rightarrow> unit result \<times> predictor" where
  "cutoff_mask e s =
     (case getitem (mask_params s) ''max_contrib'' of
        Raise er \<Rightarrow> (Raise er, s)
      | Return mc \<Rightarrow>
          if mc \<noteq> PNone
          then (case mask s of
                  None \<Rightarrow> (Raise (AttributeError ''mask''), s)
                | Some m \<Rightarrow>
                    (case cutoff_contributions e m mc of
                       Raise er \<Rightarrow> (Raise er, s)
                     | Return m' \<Rightarrow> (Return (), s\<lparr>mask := Some m'\<rparr>)))
          else (Return (), s))"

definition filter_predictor :: "env \<Rightarrow> predictor \<Rightarrow> unit result \<times> predictor" where
  "filter_predictor e s =
     (case active_masks e s of
        Raise er \<Rightarrow> (Raise er, s)
      | Return masks \<Rightarrow>
          (case cutoff_mask e (s\<lparr>mask := Some (combine_masks masks)\<rparr>) of
             (Raise er, s1) \<Rightarrow> (Raise er, s1)
           | (Return u, s1) \<Rightarrow>
               (case (summary s1, mask s1) of
                  (Some sm, Some m) \<Rightarrow>
                    (case compute_masked_contributions e (contrib_sorted sm) m of
                       Raise er \<Rightarrow> (Raise er, s1)
                     | Return mc \<Rightarrow> (Return (), s1\<lparr>masked_contributions := Some mc\<rparr>))
                | _ \<Rightarrow> (Raise (AttributeError ''summary''), s1))))"

text \<open>
  \<^verbatim>\<open>
  def summarize(self):
      if not hasattr(self, "data"):
          raise ValueError("You have to specify dataset x and y_pred arguments. Please use add_input() method.")
      self.summary = assign_contributions(
          rank_contributions(self.data["contributions"], self.data["x_preprocessed"]))
      self.filter()
      self.data['summary'] = summarize(self.summary['contrib_sorted'], self.summary['var_dict'],
                                       self.summary['x_sorted'], self.mask,
                                       self.columns_dict, self.features_dict)
      return pd.concat([self.data["ypred"], self.data['summary']], axis=1)
  \<close>
\<close>

definition summarize_message :: string where
  "summarize_message =
     ''You have to specify dataset x and y_pred arguments. Please use add_input() method.''"

definition rank_summary :: "env \<Rightarrow> predictor \<Rightarrow> ranked result" where
  "rank_summary e s =
     bind (data_getitem s ''contributions'') (\<lambda>c.
     bind (data_getitem s ''x_preprocessed'') (\<lambda>xp.
     bind (rank_contributions e c xp) (\<lambda>r. Return (assign_contributions r))))"

definition summary_table :: "env \<Rightarrow> predictor \<Rightarrow> frame result" where
  "summary_table e s =
     (case (summary s, mask s) of
        (Some sm, Some m) \<Rightarrow>
          summarize_fn e (contrib_sorted sm) (var_dict sm) (x_sorted sm) m
            (columns_dict e) (features_dict e)
      | _ \<Rightarrow> Raise (AttributeError ''summary''))"

definition summarize :: "env \<Rightarrow> predictor \<Rightarrow> frame result \<times> predictor" where
  "summarize e s =
     (if data s = None then (Raise (ValueError summarize_message), s)
      else (case rank_summary e s of
              Raise er \<Rightarrow> (Raise er, s)
            | Return sm \<Rightarrow>
                (case filter_predictor e (s\<lparr>summary := Some sm\<rparr>) of
                   (Raise er, s1) \<Rightarrow> (Raise er, s1)
                 | (Return u, s1) \<Rightarrow>
                     (case summary_table e s1 of
                        Raise er \<Rightarrow> (Raise er, s1)
                      | Return t \<Rightarrow>
                          (let s2 = data_setitem s1 ''summary'' (Frame t)
                           in (bind (data_getitem s2 ''ypred'') (\<lambda>yp. pd_concat e [yp, Frame t]),
                               s2))))))"

subsection \<open>\<^verbatim>\<open>modify_mask\<close>\<close>

text \<open>
  \<^verbatim>\<open>
  Attributes = {"features_to_hide": features_to_hide, "threshold": threshold,
                "positive": positive, "max_contrib": max_contrib}
  for label, attribute in Attributes.items() :
      if attribute is not None:
          self.mask_params[label] = attribute
  \<close>
\<close>

definition modify_mask_step :: "string \<times> param \<Rightarrow> (string, param) dict \<Rightarrow> (string, param) dict" where
  "modify_mask_step la mp =
     (if snd la \<noteq> PNone then AList.update (fst la) (snd la) mp else mp)"

definition modify_mask :: "predictor \<Rightarrow> param \<Rightarrow> param \<Rightarrow> param \<Rightarrow> param \<Rightarrow> predictor" where
  "modify_mask s features_to_hide threshold positive max_contrib =
     (let Attributes = [(''features_to_hide'', features_to_hide), (''threshold'', threshold),
                        (''positive'', positive), (''max_contrib'', max_contrib)]
      in s\<lparr>mask_params := fold modify_mask_step Attributes (mask_params s)\<rparr>)"

section \<open>A bundle computed from scratch\<close>

text \<open>
  The spec speaks of contributions ``recomputed from scratch against'' a new dataset. The
  definitions of this section say what that is with no predictor to read from, so that
  nothing stored earlier can enter: they are functions of the environment and of their
  arguments. They are written from the spec's words and from the order of the steps in
  \<^verbatim>\<open>add_input\<close>, \<^verbatim>\<open>predict\<close> and \<^verbatim>\<open>compute_contributions\<close>; the properties below compare
  the methods of the class with them.
\<close>

text \<open>The prediction of the model on a preprocessed table.\<close>

definition predict_on :: "env \<Rightarrow> pyval \<Rightarrow> pyval result" where
  "predict_on e xp =
     (case model_predict e of
        None \<Rightarrow> Raise (ValueError no_predict_message)
      | Some p \<Rightarrow> bind (p xp) (\<lambda>y. Return (Frame y)))"

text \<open>The contributions handed over by the caller or, without them, those of the explainer
  on a preprocessed table.\<close>

definition contributions_or_shap :: "env \<Rightarrow> pyval \<Rightarrow> contributions option \<Rightarrow> contributions result" where
  "contributions_or_shap e xp contributions =
     (case contributions of None \<Rightarrow> shap_contributions e xp | Some c \<Rightarrow> Return c)"

text \<open>Contributions computed against a dataset: the contributions \<open>c\<close> are adapted,
  validated against the preprocessed table \<open>xp\<close>, taken back to the original features,
  checked against the table \<open>x\<close> and matched with the prediction \<open>ypred\<close> (and, for a
  classifier, with the probabilities of the model on \<open>xp\<close>).\<close>

definition contributions_against ::
  "env \<Rightarrow> pyval \<Rightarrow> pyval \<Rightarrow> pyval \<Rightarrow> contributions \<Rightarrow> (frame \<times> real dataframe) result" where
  "contributions_against e x xp ypred c =
     (let adapt_contrib = adapt_contributions e c;
          st = choose_state adapt_contrib
      in bind (check_contribution_object e adapt_contrib) (\<lambda>u.
         bind (state_validate_contributions e st adapt_contrib xp) (\<lambda>c1.
         bind (if preprocessing_truthy e
               then state_inverse_transform_contributions e st c1 else Return c1) (\<lambda>c2.
         bind (state_check_contributions e st c2 x) (\<lambda>ok.
         bind (if \<not> ok then Raise (ValueError check_contributions_message) else Return ()) (\<lambda>u.
         bind (if model_case e = ''classification'' then predict_proba_fn e xp else Return PyNone)
           (\<lambda>proba_values.
           keep_right_contributions e ypred c2 proba_values)))))))"

text \<open>The bundle of a checked dataset \<open>x'\<close>, from the dataset and the arguments
  \<^verbatim>\<open>ypred\<close> and \<^verbatim>\<open>contributions\<close> of \<^verbatim>\<open>add_input\<close> alone: the dataset is preprocessed;
  the prediction is the checked \<^verbatim>\<open>ypred\<close> of the caller or, without one, that of the
  model; the contributions are computed against these. The entry \<^verbatim>\<open>x\<close> is the table as
  the preprocessing has left it.\<close>

definition bundle_from_scratch ::
  "env \<Rightarrow> frame \<Rightarrow> frame option \<Rightarrow> contributions option \<Rightarrow> (string, pyval) dict result" where
  "bundle_from_scratch e x' ypred contributions =
     (case apply_preprocessing_fn e (Frame x') of
        (Raise er, x_left) \<Rightarrow> Raise (ValueError preprocessing_message)
      | (Return xp, x_left) \<Rightarrow>
          bind (case ypred of None \<Rightarrow> Return PyNone | Some y \<Rightarrow> check_ypred_fn e x_left y)
            (\<lambda>given.
          bind (if x_left = PyNone then Raise (ValueError no_x_message) else Return ()) (\<lambda>u.
          bind (if given = PyNone then predict_on e (Frame xp) else Return given) (\<lambda>yp.
          bind (contributions_or_shap e (Frame xp) contributions) (\<lambda>c.
          bind (contributions_against e x_left (Frame xp) yp c) (\<lambda>r.
            Return [(''x'', x_left), (''ypred'', Frame (fst r)),
                    (''contributions'', NumFrame (snd r)), (''x_preprocessed'', Frame xp)]))))))"

section \<open>Sequences of calls, and concrete inputs\<close>

text \<open>Modelled from the spec: \<^verbatim>\<open>cap_contributions\<close> and \<^verbatim>\<open>sign_contributions\<close> of
  \<^verbatim>\<open>shapash.manipulation.filters\<close> are not in the sources. The spec: the threshold filter
  is ``\<^verbatim>\<open>True\<close> where \<^verbatim>\<open>abs(contribution) >= threshold\<close>''; the sign filter keeps
  ``strictly positive contributions only'' for \<^verbatim>\<open>positive = True\<close> and ``strictly negative
  only'' for \<^verbatim>\<open>False\<close>. They serve in the concrete setting below; the properties of
  \<^verbatim>\<open>filter\<close> are proved for any functions in their place.\<close>

definition value_mask :: "(real \<Rightarrow> bool) \<Rightarrow> real dataframe \<Rightarrow> mask_frame" where
  "value_mask keep t =
     DataFrame (df_index t) (map (\<lambda>(n, d, vs). (n, ''bool'', map keep vs)) (df_columns t))"

definition cap_mask :: "real dataframe \<Rightarrow> real \<Rightarrow> mask_frame" where
  "cap_mask t threshold = value_mask (\<lambda>c. \<bar>c\<bar> \<ge> threshold) t"

definition sign_mask :: "real dataframe \<Rightarrow> bool \<Rightarrow> mask_frame" where
  "sign_mask t positive = value_mask (\<lambda>c. if positive then c > 0 else c < 0) t"

text \<open>A caller that invokes \<^verbatim>\<open>modify_mask\<close> several times in a row, each time with its
  four arguments.\<close>

definition modify_mask_calls ::
  "predictor \<Rightarrow> (param \<times> param \<times> param \<times> param) list \<Rightarrow> predictor" where
  "modify_mask_calls s calls = fold (\<lambda>(fh, th, po, mc) s. modify_mask s fh th po mc) calls s"



text \<open>A small regression setting used to run the methods on concrete values: two
  features, one row. The preprocessing encodes the column \<open>Sex\<close> in the table it is
  given: it knows the categories of \<open>X1\<close> and \<open>X3\<close>; on the category of \<open>X2\<close> it has
  written the code of an unknown category into the column when its next step fails.\<close>

definition X1 :: frame where
  "X1 = DataFrame [0] [(''Age'', ''float64'', [F 30]), (''Sex'', ''object'', [S ''f''])]"

definition X2 :: frame where
  "X2 = DataFrame [0] [(''Age'', ''float64'', [F 41]), (''Sex'', ''object'', [S ''unknown''])]"

definition X2_left :: frame where
  "X2_left = DataFrame [0] [(''Age'', ''float64'', [F 41]), (''Sex'', ''int64'', [I (- 1)])]"

definition X3 :: frame where
  "X3 = DataFrame [0] [(''Age'', ''float64'', [F 52]), (''Sex'', ''object'', [S ''m''])]"

definition XP1 :: frame where
  "XP1 = DataFrame [0] [(''Age'', ''float64'', [F 30]), (''Sex'', ''int64'', [I 1])]"

definition XP3 :: frame where
  "XP3 = DataFrame [0] [(''Age'', ''float64'', [F 52]), (''Sex'', ''int64'', [I 0])]"

definition Y1 :: frame where
  "Y1 = DataFrame [0] [(''ypred'', ''float64'', [F 12])]"

definition Y3 :: frame where
  "Y3 = DataFrame [0] [(''ypred'', ''float64'', [F 7])]"

definition C1 :: "real dataframe" where
  "C1 = DataFrame [0] [(''Age'', ''float64'', [1 / 2]), (''Sex'', ''float64'', [- 1 / 4])]"

definition C3 :: "real dataframe" where
  "C3 = DataFrame [0] [(''Age'', ''float64'', [- 3 / 4]), (''Sex'', ''float64'', [1 / 8])]"

definition demo_env :: env where
  "demo_env =
     \<lparr>model_case = ''regression'',
      features_types = [(''Age'', ''float64''), (''Sex'', ''object'')],
      columns_dict = [(0, ''Age''), (1, ''Sex'')],
      features_dict = [(''Age'', ''Age of the passenger''), (''Sex'', ''Sex of the passenger'')],
      preprocessing_truthy = True,
      frame_from_dict = (\<lambda>d. Raise (External ''not a table'')),
      not_in_index = (\<lambda>columns labels. ''not in index''),
      apply_preprocessing_fn =
        (\<lambda>x. if x = Frame X1 then (Return XP1, Frame XP1)
             else if x = Frame X3 then (Return XP3, Frame XP3)
             else if x = Frame X2 then (Raise (External ''unknown category''), Frame X2_left)
             else (Raise (External ''unknown category''), x)),
      check_ypred_fn = (\<lambda>x y. Return (Frame y)),
      model_predict = Some (\<lambda>xp. if xp = Frame XP3 then Return Y3 else Return Y1),
      predict_proba_fn = (\<lambda>xp. Return PyNone),
      shap_contributions =
        (\<lambda>xp. if xp = Frame XP3 then Return (Table C3) else Return (Table C1)),
      check_contribution_object = (\<lambda>c. Return ()),
      state_validate_contributions = (\<lambda>st c xp. Return c),
      state_inverse_transform_contributions = (\<lambda>st c. Return c),
      state_check_contributions = (\<lambda>st c x. Return True),
      keep_right_contributions =
        (\<lambda>yp c proba. case (yp, c) of
                        (Frame y, Table t) \<Rightarrow> Return (y, t)
                      | (Frame y, TableList ts) \<Rightarrow> Return (y, last ts)
                      | _ \<Rightarrow> Raise (External ''no prediction'')),
      rank_contributions =
        (\<lambda>c xp. case (c, xp) of
                   (NumFrame t, Frame x) \<Rightarrow>
                     Return (t, x,
                       DataFrame (df_index t) [(''Age'', ''int64'', [0]), (''Sex'', ''int64'', [1])])
                 | _ \<Rightarrow> Raise (External ''nothing to rank'')),
      cap_contributions =
        (\<lambda>cs th. case (cs, th) of
                    (NumFrame t, PFloat r) \<Rightarrow> Return (cap_mask t r)
                  | _ \<Rightarrow> Raise (External ''not a table'')),
      sign_contributions =
        (\<lambda>t po. case po of
                   PBool b \<Rightarrow> Return (sign_mask t b)
                 | _ \<Rightarrow> Raise (External ''not a bool'')),
      cutoff_contributions = (\<lambda>m k. Return m),
      compute_masked_contributions = (\<lambda>t m. Return t),
      summarize_fn = (\<lambda>cs vd xs m cd fd. Return xs),
      pd_concat =
        (\<lambda>vs. case vs of Frame a # rest \<Rightarrow> Return a | _ \<Rightarrow> Raise (External ''nothing to concatenate''))\<rparr>"

text \<open>The bundles that \<^verbatim>\<open>add_input(x=X1)\<close> and \<^verbatim>\<open>add_input(x=X3)\<close> store in this
  setting; the entry \<^verbatim>\<open>x\<close> is the table as the preprocessing has left it.\<close>

definition bundle1 :: "(string, pyval) dict" where
  "bundle1 = [(''x'', Frame XP1), (''ypred'', Frame Y1), (''contributions'', NumFrame C1),
              (''x_preprocessed'', Frame XP1)]"

definition bundle3 :: "(string, pyval) dict" where
  "bundle3 = [(''x'', Frame XP3), (''ypred'', Frame Y3), (''contributions'', NumFrame C3),
              (''x_preprocessed'', Frame XP3)]"

text \<open>A dataset whose column \<open>Age\<close> holds integers (dtype \<^verbatim>\<open>int64\<close>), where
  \<open>features_types\<close> of the setting declares \<^verbatim>\<open>float64\<close>; its columns are in another order
  than \<open>columns_dict\<close>.\<close>

definition X_int :: frame where
  "X_int = DataFrame [0] [(''Sex'', ''object'', [S ''f'']), (''Age'', ''int64'', [I 30])]"

text \<open>Mask parameters with only the threshold set.\<close>

definition threshold_params :: "(string, param) dict" where
  "threshold_params =
     [(''features_to_hide'', PNone), (''threshold'', PFloat (1 / 2)),
      (''positive'', PNone), (''max_contrib'', PNone)]"

text \<open>The same setting with a classifier.\<close>

definition demo_class_env :: env where
  "demo_class_env = demo_env\<lparr>model_case := ''classification''\<rparr>"

definition fresh :: predictor where
  "fresh = init_predictor default_mask_params"


text \<open>The predictor after \<^verbatim>\<open>add_input(x=X1)\<close> on a fresh predictor of the setting.\<close>

definition s_added :: predictor where
  "s_added = fresh\<lparr>data := Some bundle1, state := Some SmartState\<rparr>"





section \<open>Properties\<close>

lemma map_of_modify_mask_step:
  "map_of (modify_mask_step (l, a) mp) k =
     (if a \<noteq> PNone \<and> k = l then Some a else map_of mp k)"
  by (simp add: modify_mask_step_def update_conv')

lemma map_of_modify_mask:
  "map_of (mask_params (modify_mask s fh th po mc)) k =
     (if k = ''max_contrib'' \<and> mc \<noteq> PNone then Some mc
      else if k = ''positive'' \<and> po \<noteq> PNone then Some po
      else if k = ''threshold'' \<and> th \<noteq> PNone then Some th
      else if k = ''features_to_hide'' \<and> fh \<noteq> PNone then Some fh
      else map_of (mask_params s) k)"
  by (simp add: modify_mask_def map_of_modify_mask_step)

lemma modify_mask_keeps_set:
  assumes "map_of (mask_params s) k = Some v" "v \<noteq> PNone"
  shows "\<exists>v'. map_of (mask_params (modify_mask s fh th po mc)) k = Some v' \<and> v' \<noteq> PNone"
  using assms by (simp add: map_of_modify_mask)

lemma modify_mask_calls_keep_set:
  "map_of (mask_params s) k = Some v \<Longrightarrow> v \<noteq> PNone \<Longrightarrow>
   \<exists>v'. map_of (mask_params (modify_mask_calls s calls)) k = Some v' \<and> v' \<noteq> PNone"
proof (induction calls arbitrary: s v)
  case Nil
  then show ?case by (simp add: modify_mask_calls_def)
next
  case (Cons c calls)
  obtain fh th po mc where c: "c = (fh, th, po, mc)" by (cases c) auto
  from modify_mask_keeps_set [OF Cons.prems, of fh th po mc]
  obtain v' where v': "map_of (mask_params (modify_mask s fh th po mc)) k = Some v'" "v' \<noteq> PNone"
    by blast
  from Cons.IH [OF v'] show ?case
    by (simp add: modify_mask_calls_def c)
qed

text \<open>
  Claim C10. \<^verbatim>\<open>modify_mask\<close> only updates: each of the four parameters passed as a value
  other than \<^verbatim>\<open>None\<close> is overwritten with that value, each parameter passed as
  \<^verbatim>\<open>None\<close> keeps what it had, and no other key of \<^verbatim>\<open>mask_params\<close> changes. So a
  parameter that holds a value other than \<^verbatim>\<open>None\<close> still holds one after any sequence
  of \<^verbatim>\<open>modify_mask\<close> calls: the filter cannot be switched off this way.
\<close>

theorem modify_mask_update_only:
  "map_of (mask_params (modify_mask s fh th po mc)) ''features_to_hide'' =
     (if fh = PNone then map_of (mask_params s) ''features_to_hide'' else Some fh) \<and>
   map_of (mask_params (modify_mask s fh th po mc)) ''threshold'' =
     (if th = PNone then map_of (mask_params s) ''threshold'' else Some th) \<and>
   map_of (mask_params (modify_mask s fh th po mc)) ''positive'' =
     (if po = PNone then map_of (mask_params s) ''positive'' else Some po) \<and>
   map_of (mask_params (modify_mask s fh th po mc)) ''max_contrib'' =
     (if mc = PNone then map_of (mask_params s) ''max_contrib'' else Some mc) \<and>
   (k \<notin> {''features_to_hide'', ''threshold'', ''positive'', ''max_contrib''} \<longrightarrow>
      map_of (mask_params (modify_mask s fh th po mc)) k = map_of (mask_params s) k) \<and>
   (map_of (mask_params s) k = Some v \<and> v \<noteq> PNone \<longrightarrow>
      (\<exists>v'. map_of (mask_params (modify_mask_calls s calls)) k = Some v' \<and> v' \<noteq> PNone))"
  using modify_mask_calls_keep_set [of s k v calls]
  by (simp add: map_of_modify_mask)

theorem modify_mask_update_only_witness:
  "map_of (mask_params (modify_mask (init_predictor
       [(''features_to_hide'', PNone), (''threshold'', PFloat (1 / 2)),
        (''positive'', PNone), (''max_contrib'', PNone)]) PNone PNone (PBool True) PNone))
     ''threshold'' = Some (PFloat (1 / 2)) \<and>
   map_of (mask_params (modify_mask (init_predictor
       [(''features_to_hide'', PNone), (''threshold'', PFloat (1 / 2)),
        (''positive'', PNone), (''max_contrib'', PNone)]) PNone PNone (PBool True) PNone))
     ''positive'' = Some (PBool True) \<and>
   (\<exists>v'. map_of (mask_params (modify_mask_calls (init_predictor
       [(''features_to_hide'', PNone), (''threshold'', PFloat (1 / 2)),
        (''positive'', PNone), (''max_contrib'', PNone)])
       [(PNone, PNone, PNone, PNone), (PNone, PFloat 2, PNone, PInt 3)])) ''threshold'' = Some v' \<and>
      v' \<noteq> PNone)"
  using modify_mask_update_only [of "init_predictor
       [(''features_to_hide'', PNone), (''threshold'', PFloat (1 / 2)),
        (''positive'', PNone), (''max_contrib'', PNone)]" PNone PNone "PBool True" PNone
       "''threshold''" "PFloat (1 / 2)"
       "[(PNone, PNone, PNone, PNone), (PNone, PFloat 2, PNone, PInt 3)]"]
  by (simp add: init_predictor_def)

lemma data_getitem_setitem:
  "data_getitem (data_setitem s k v) k' =
     (if data s \<noteq> None \<and> k' = k then Return v else data_getitem s k')"
  by (auto simp: data_getitem_def data_setitem_def getitem_def update_conv' split: option.splits)

lemma data_setitem_fields:
  "mask_params (data_setitem s k v) = mask_params s"
  "state (data_setitem s k v) = state s"
  "summary (data_setitem s k v) = summary s"
  "mask (data_setitem s k v) = mask s"
  "masked_contributions (data_setitem s k v) = masked_contributions s"
  "(data (data_setitem s k v) = None) = (data s = None)"
  by (simp_all add: data_setitem_def split: option.splits)


lemma predict_frame:
  "k \<noteq> ''ypred'' \<Longrightarrow> data_getitem (snd (predict e s)) k = data_getitem s k"
  by (simp add: predict_def data_getitem_setitem split: option.splits result.splits)

lemma predict_fields:
  "mask_params (snd (predict e s)) = mask_params s"
  "state (snd (predict e s)) = state s"
  "summary (snd (predict e s)) = summary s"
  "mask (snd (predict e s)) = mask s"
  "masked_contributions (snd (predict e s)) = masked_contributions s"
  by (simp_all add: predict_def data_setitem_fields split: option.splits result.splits)

lemma contributions_guards_frame:
  "k \<noteq> ''ypred'' \<Longrightarrow> data_getitem (snd (contributions_guards e s)) k = data_getitem s k"
  using predict_frame [of k e s]
  by (auto simp: contributions_guards_def split: option.splits result.splits prod.splits)

lemma compute_contributions_frame:
  assumes "k \<noteq> ''ypred''"
  shows "data_getitem (snd (compute_contributions e c s)) k = data_getitem s k"
proof (cases "contributions_guards e s")
  case (Pair r s1)
  with contributions_guards_frame [OF assms, of e s] show ?thesis
    by (auto simp: compute_contributions_def Let_def data_getitem_def
        split: result.splits)
qed

lemma add_input_contributions_frame:
  assumes "k \<noteq> ''ypred''" "k \<noteq> ''contributions''"
  shows "data_getitem (snd (add_input_contributions e c s)) k = data_getitem s k"
proof (cases "compute_contributions e c s")
  case (Pair r s1)
  with compute_contributions_frame [OF assms(1), of e c s] assms show ?thesis
    by (auto simp: add_input_contributions_def data_getitem_setitem data_setitem_fields
        split: result.splits)
qed

lemma add_input_ypred_frame:
  "k \<noteq> ''ypred'' \<Longrightarrow> data_getitem (snd (add_input_ypred e y s)) k = data_getitem s k"
  by (simp add: add_input_ypred_def data_getitem_setitem split: option.splits result.splits)

lemma add_input_x_invalid:
  "bind (check_dataset_type e x) (check_dataset_features e) = Raise er \<Longrightarrow>
   add_input_x e (Some x) s = (Raise er, s)"
  by (simp add: add_input_x_def)

lemma add_input_x_preprocessing_fails:
  "bind (check_dataset_type e x) (check_dataset_features e) = Return x' \<Longrightarrow>
   apply_preprocessing_fn e (Frame x') = (Raise er, x_left) \<Longrightarrow>
   add_input_x e (Some x) s =
     (Raise (ValueError preprocessing_message),
      s\<lparr>data := Some [(''x'', x_left), (''ypred'', PyNone), (''contributions'', PyNone),
                       (''x_preprocessed'', PyNone)]\<rparr>)"
  by (simp add: add_input_x_def apply_preprocessing_def data_getitem_def getitem_def
      clean_data_def bind_def data_setitem_def)

lemma add_input_x_succeeds:
  "bind (check_dataset_type e x) (check_dataset_features e) = Return x' \<Longrightarrow>
   apply_preprocessing_fn e (Frame x') = (Return xp, x_left) \<Longrightarrow>
   add_input_x e (Some x) s =
     (Return (),
      s\<lparr>data := Some [(''x'', x_left), (''ypred'', PyNone), (''contributions'', PyNone),
                       (''x_preprocessed'', Frame xp)]\<rparr>)"
  by (simp add: add_input_x_def apply_preprocessing_def data_getitem_def getitem_def
      clean_data_def bind_def data_setitem_def)

lemma add_input_x_cases:
  obtains (invalid) er where "bind (check_dataset_type e x) (check_dataset_features e) = Raise er"
  | (fails) x' er x_left where
      "bind (check_dataset_type e x) (check_dataset_features e) = Return x'"
      "apply_preprocessing_fn e (Frame x') = (Raise er, x_left)"
  | (succeeds) x' xp x_left where
      "bind (check_dataset_type e x) (check_dataset_features e) = Return x'"
      "apply_preprocessing_fn e (Frame x') = (Return xp, x_left)"
  by (metis result.exhaust surj_pair)

lemma add_input_preprocessing_fails:
  assumes "bind (check_dataset_type e x) (check_dataset_features e) = Return x'"
    and "apply_preprocessing_fn e (Frame x') = (Raise er, x_left)"
  shows "add_input e (Some x) ypred contributions s =
     (Raise (ValueError preprocessing_message),
      s\<lparr>data := Some [(''x'', x_left), (''ypred'', PyNone), (''contributions'', PyNone),
                       (''x_preprocessed'', PyNone)]\<rparr>)"
  by (simp add: add_input_def add_input_x_preprocessing_fails [OF assms])

lemma add_input_invalid:
  assumes "bind (check_dataset_type e x) (check_dataset_features e) = Raise er"
  shows "add_input e (Some x) ypred contributions s = (Raise er, s)"
  by (simp add: add_input_def add_input_x_invalid [OF assms])

lemma add_input_forgets_data:
  assumes "fst (add_input e (Some x) ypred contributions s) = Return ()"
  shows "add_input e (Some x) ypred contributions (s\<lparr>data := d\<rparr>) =
         add_input e (Some x) ypred contributions s"
proof (cases rule: add_input_x_cases [of e x])
  case (invalid er)
  with assms show ?thesis by (simp add: add_input_invalid)
next
  case (fails x' er x_left)
  with assms show ?thesis by (simp add: add_input_preprocessing_fails)
next
  case (succeeds x' xp x_left)
  then show ?thesis by (simp add: add_input_def add_input_x_succeeds)
qed

lemma match_against:
  assumes "data_getitem s ''x'' = Return x" "data_getitem s ''x_preprocessed'' = Return xp"
    and "data_getitem s ''ypred'' = Return yv"
  shows "match_contributions e (s\<lparr>state := Some (choose_state (adapt_contributions e c))\<rparr>)
           (adapt_contributions e c) = contributions_against e x xp yv c"
proof -
  have d: "data_getitem (s\<lparr>state := Some (choose_state (adapt_contributions e c))\<rparr>) k =
      data_getitem s k" for k
    by (simp add: data_getitem_def)
  show ?thesis
    using assms
    by (simp add: match_contributions_def contributions_against_def validate_contributions_def
        check_contributions_def apply_preprocessing_for_contributions_def predict_proba_def
        get_state_def d Let_def bind_def split: result.splits)
qed

lemma compute_contributions_bundle:
  assumes "data s = Some [(''x'', x), (''ypred'', yv), (''contributions'', cv),
                          (''x_preprocessed'', Frame xp)]"
  shows "fst (compute_contributions e c s) =
           bind (if x = PyNone then Raise (ValueError no_x_message) else Return ()) (\<lambda>u.
           bind (if yv = PyNone then predict_on e (Frame xp) else Return yv) (\<lambda>yp.
           bind (contributions_or_shap e (Frame xp) c) (contributions_against e x (Frame xp) yp)))"
    and "data (snd (compute_contributions e c s)) =
           (if x \<noteq> PyNone \<and> yv = PyNone
            then (case predict_on e (Frame xp) of
                    Return yp \<Rightarrow> Some [(''x'', x), (''ypred'', yp), (''contributions'', cv),
                                        (''x_preprocessed'', Frame xp)]
                  | Raise er \<Rightarrow> data s)
            else data s)"
proof -
  obtain r s1 where g: "contributions_guards e s = (r, s1)" by (cases "contributions_guards e s")
  have g1: "r = bind (if x = PyNone then Raise (ValueError no_x_message) else Return ()) (\<lambda>u.
           bind (if yv = PyNone then predict_on e (Frame xp) else Return yv) (\<lambda>yp. Return ()))"
    and g2: "data s1 = (if x \<noteq> PyNone \<and> yv = PyNone
            then (case predict_on e (Frame xp) of
                    Return yp \<Rightarrow> Some [(''x'', x), (''ypred'', yp), (''contributions'', cv),
                                        (''x_preprocessed'', Frame xp)]
                  | Raise er \<Rightarrow> data s)
            else data s)"
    using g assms
    by (auto simp: contributions_guards_def predict_def predict_on_def getitem_def bind_def
        data_setitem_def split: option.splits result.splits if_splits)
  show "fst (compute_contributions e c s) =
           bind (if x = PyNone then Raise (ValueError no_x_message) else Return ()) (\<lambda>u.
           bind (if yv = PyNone then predict_on e (Frame xp) else Return yv) (\<lambda>yp.
           bind (contributions_or_shap e (Frame xp) c) (contributions_against e x (Frame xp) yp)))"
  proof (cases r)
    case (Raise er)
    with g g1 show ?thesis
      by (auto simp: compute_contributions_def bind_def split: if_splits result.splits)
  next
    case (Return u)
    with g1 have x: "x \<noteq> PyNone" by (auto simp: bind_def split: if_splits)
    from Return g1 x obtain yp where
      yp: "(if yv = PyNone then predict_on e (Frame xp) else Return yv) = Return yp"
      by (auto simp: bind_def split: if_splits result.splits)
    with g2 x assms have d1: "data s1 = Some [(''x'', x), (''ypred'', yp), (''contributions'', cv),
                                        (''x_preprocessed'', Frame xp)]"
      by (auto split: if_splits)
    then have gets: "data_getitem s1 ''x'' = Return x"
      "data_getitem s1 ''x_preprocessed'' = Return (Frame xp)"
      "data_getitem s1 ''ypred'' = Return yp"
      by (simp_all add: data_getitem_def getitem_def)
    have raw: "raw_contributions e s1 c = contributions_or_shap e (Frame xp) c"
      using gets
      by (simp add: raw_contributions_def contributions_or_shap_def bind_def split: option.splits)
    show ?thesis
      using g Return x yp raw match_against [OF gets]
      by (simp add: compute_contributions_def Let_def bind_def split: result.splits)
  qed
  show "data (snd (compute_contributions e c s)) =
           (if x \<noteq> PyNone \<and> yv = PyNone
            then (case predict_on e (Frame xp) of
                    Return yp \<Rightarrow> Some [(''x'', x), (''ypred'', yp), (''contributions'', cv),
                                        (''x_preprocessed'', Frame xp)]
                  | Raise er \<Rightarrow> data s)
            else data s)"
    using g g2 by (cases r) (simp_all add: compute_contributions_def Let_def split: result.splits)
qed

lemma add_input_contributions_bundle:
  assumes "data s = Some [(''x'', x), (''ypred'', yv), (''contributions'', PyNone),
                          (''x_preprocessed'', Frame xp)]"
  shows "fst (add_input_contributions e c s) =
           bind (if x = PyNone then Raise (ValueError no_x_message) else Return ()) (\<lambda>u.
           bind (if yv = PyNone then predict_on e (Frame xp) else Return yv) (\<lambda>yp.
           bind (contributions_or_shap e (Frame xp) c) (\<lambda>c'.
           bind (contributions_against e x (Frame xp) yp c') (\<lambda>r. Return ()))))"
    and "fst (add_input_contributions e c s) = Return () \<Longrightarrow>
         \<exists>yp c' y m. (if yv = PyNone then predict_on e (Frame xp) else Return yv) = Return yp \<and>
           x \<noteq> PyNone \<and>
           contributions_or_shap e (Frame xp) c = Return c' \<and>
           contributions_against e x (Frame xp) yp c' = Return (y, m) \<and>
           data (snd (add_input_contributions e c s)) =
             Some [(''x'', x), (''ypred'', Frame y), (''contributions'', NumFrame m),
                   (''x_preprocessed'', Frame xp)]"
proof -
  obtain r s1 where cc: "compute_contributions e c s = (r, s1)"
    by (cases "compute_contributions e c s")
  from compute_contributions_bundle [OF assms, of e c] cc
  have r: "r = bind (if x = PyNone then Raise (ValueError no_x_message) else Return ()) (\<lambda>u.
           bind (if yv = PyNone then predict_on e (Frame xp) else Return yv) (\<lambda>yp.
           bind (contributions_or_shap e (Frame xp) c) (contributions_against e x (Frame xp) yp)))"
    and d: "data s1 =
           (if x \<noteq> PyNone \<and> yv = PyNone
            then (case predict_on e (Frame xp) of
                    Return yp \<Rightarrow> Some [(''x'', x), (''ypred'', yp), (''contributions'', PyNone),
                                        (''x_preprocessed'', Frame xp)]
                  | Raise er \<Rightarrow> data s)
            else data s)"
    by simp_all
  show "fst (add_input_contributions e c s) =
           bind (if x = PyNone then Raise (ValueError no_x_message) else Return ()) (\<lambda>u.
           bind (if yv = PyNone then predict_on e (Frame xp) else Return yv) (\<lambda>yp.
           bind (contributions_or_shap e (Frame xp) c) (\<lambda>c'.
           bind (contributions_against e x (Frame xp) yp c') (\<lambda>r. Return ()))))"
    using cc r
    by (cases r) (auto simp: add_input_contributions_def bind_def split: result.splits if_splits)
  assume ok: "fst (add_input_contributions e c s) = Return ()"
  with cc obtain y m where ym: "r = Return (y, m)"
    by (cases r) (auto simp: add_input_contributions_def)
  from ym r have x: "x \<noteq> PyNone" by (auto simp: bind_def split: if_splits)
  from ym r x obtain yp where
    yp: "(if yv = PyNone then predict_on e (Frame xp) else Return yv) = Return yp"
    by (cases "if yv = PyNone then predict_on e (Frame xp) else Return yv") (auto simp: bind_def)
  from ym r x yp obtain c' where c': "contributions_or_shap e (Frame xp) c = Return c'"
    by (cases "contributions_or_shap e (Frame xp) c") (auto simp: bind_def)
  from ym r x yp c' have ag: "contributions_against e x (Frame xp) yp c' = Return (y, m)"
    by (auto simp: bind_def)
  from d x yp assms
  have d1: "data s1 = Some [(''x'', x), (''ypred'', yp), (''contributions'', PyNone),
                           (''x_preprocessed'', Frame xp)]"
    by (auto split: if_splits)
  have "data (snd (add_input_contributions e c s)) =
             Some [(''x'', x), (''ypred'', Frame y), (''contributions'', NumFrame m),
                   (''x_preprocessed'', Frame xp)]"
    using cc ym d1 by (simp add: add_input_contributions_def data_setitem_def)
  with x yp c' ag
  show "\<exists>yp c' y m. (if yv = PyNone then predict_on e (Frame xp) else Return yv) = Return yp \<and>
           x \<noteq> PyNone \<and>
           contributions_or_shap e (Frame xp) c = Return c' \<and>
           contributions_against e x (Frame xp) yp c' = Return (y, m) \<and>
           data (snd (add_input_contributions e c s)) =
             Some [(''x'', x), (''ypred'', Frame y), (''contributions'', NumFrame m),
                   (''x_preprocessed'', Frame xp)]"
    by blast
qed

lemma add_input_ypred_bundle:
  assumes "data s = Some [(''x'', x), (''ypred'', PyNone), (''contributions'', PyNone),
                          (''x_preprocessed'', Frame xp)]"
  shows "fst (add_input_ypred e ypred s) =
           bind (case ypred of None \<Rightarrow> Return PyNone | Some y \<Rightarrow> check_ypred_fn e x y)
             (\<lambda>given. Return ())"
    and "(case ypred of None \<Rightarrow> Return PyNone | Some y \<Rightarrow> check_ypred_fn e x y) = Return given \<Longrightarrow>
         data (snd (add_input_ypred e ypred s)) =
           Some [(''x'', x), (''ypred'', given), (''contributions'', PyNone),
                 (''x_preprocessed'', Frame xp)]"
  using assms
  by (auto simp: add_input_ypred_def check_ypred_def data_getitem_def getitem_def bind_def
      data_setitem_def split: option.splits result.splits)

lemma add_input_from_scratch:
  assumes v: "bind (check_dataset_type e x) (check_dataset_features e) = Return x'"
  shows "fst (add_input e (Some x) ypred contributions s) =
           bind (bundle_from_scratch e x' ypred contributions) (\<lambda>b. Return ())"
    and "fst (add_input e (Some x) ypred contributions s) = Return () \<Longrightarrow>
         \<exists>x_left xp y m.
           apply_preprocessing_fn e (Frame x') = (Return xp, x_left) \<and> x_left \<noteq> PyNone \<and>
           bundle_from_scratch e x' ypred contributions =
             Return [(''x'', x_left), (''ypred'', Frame y), (''contributions'', NumFrame m),
                     (''x_preprocessed'', Frame xp)] \<and>
           data (snd (add_input e (Some x) ypred contributions s)) =
             Some [(''x'', x_left), (''ypred'', Frame y), (''contributions'', NumFrame m),
                   (''x_preprocessed'', Frame xp)]"
proof -
  obtain r x_left where p: "apply_preprocessing_fn e (Frame x') = (r, x_left)"
    by (cases "apply_preprocessing_fn e (Frame x')")
  have "fst (add_input e (Some x) ypred contributions s) =
           bind (bundle_from_scratch e x' ypred contributions) (\<lambda>b. Return ()) \<and>
        (fst (add_input e (Some x) ypred contributions s) = Return () \<longrightarrow>
         (\<exists>x_left xp y m.
           apply_preprocessing_fn e (Frame x') = (Return xp, x_left) \<and> x_left \<noteq> PyNone \<and>
           bundle_from_scratch e x' ypred contributions =
             Return [(''x'', x_left), (''ypred'', Frame y), (''contributions'', NumFrame m),
                     (''x_preprocessed'', Frame xp)] \<and>
           data (snd (add_input e (Some x) ypred contributions s)) =
             Some [(''x'', x_left), (''ypred'', Frame y), (''contributions'', NumFrame m),
                   (''x_preprocessed'', Frame xp)]))"
  proof (cases r)
    case (Raise er)
    with p add_input_preprocessing_fails [OF v, of er x_left ypred contributions s]
    show ?thesis by (simp add: bundle_from_scratch_def bind_def)
  next
    case (Return xp)
    let ?s1 = "s\<lparr>data := Some [(''x'', x_left), (''ypred'', PyNone), (''contributions'', PyNone),
                       (''x_preprocessed'', Frame xp)]\<rparr>"
    have d1: "data ?s1 = Some [(''x'', x_left), (''ypred'', PyNone), (''contributions'', PyNone),
                       (''x_preprocessed'', Frame xp)]" by simp
    have ax: "add_input_x e (Some x) s = (Return (), ?s1)"
      using add_input_x_succeeds [OF v] p Return by simp
    obtain ry s2 where ay: "add_input_ypred e ypred ?s1 = (ry, s2)"
      by (cases "add_input_ypred e ypred ?s1")
    let ?g = "case ypred of None \<Rightarrow> Return PyNone | Some y \<Rightarrow> check_ypred_fn e x_left y"
    from add_input_ypred_bundle(1) [OF d1, of e ypred] ay
    have ry: "ry = bind ?g (\<lambda>given. Return ())" by simp
    show ?thesis
    proof (cases ?g)
      case (Raise er)
      with ry ax ay p Return show ?thesis
        by (simp add: add_input_def bundle_from_scratch_def bind_def)
    next
      case g: (Return given)
      from add_input_ypred_bundle(2) [OF d1 g] ay
      have d2: "data s2 = Some [(''x'', x_left), (''ypred'', given), (''contributions'', PyNone),
                 (''x_preprocessed'', Frame xp)]" by simp
      from ry g have ry': "ry = Return ()" by (simp add: bind_def)
      have ai: "add_input e (Some x) ypred contributions s =
          add_input_contributions e contributions s2"
        using ax ay ry' by (simp add: add_input_def)
      have f: "fst (add_input e (Some x) ypred contributions s) =
           bind (bundle_from_scratch e x' ypred contributions) (\<lambda>b. Return ())"
        using add_input_contributions_bundle(1) [OF d2, of e contributions] ai p Return g
        by (simp add: bundle_from_scratch_def bind_def split: result.splits)
      moreover have "\<exists>x_left xp y m.
           apply_preprocessing_fn e (Frame x') = (Return xp, x_left) \<and> x_left \<noteq> PyNone \<and>
           bundle_from_scratch e x' ypred contributions =
             Return [(''x'', x_left), (''ypred'', Frame y), (''contributions'', NumFrame m),
                     (''x_preprocessed'', Frame xp)] \<and>
           data (snd (add_input e (Some x) ypred contributions s)) =
             Some [(''x'', x_left), (''ypred'', Frame y), (''contributions'', NumFrame m),
                   (''x_preprocessed'', Frame xp)]"
        if ok: "fst (add_input e (Some x) ypred contributions s) = Return ()"
      proof -
        from add_input_contributions_bundle(2) [OF d2, of e contributions] ok ai
        obtain yp c' y m where h:
          "(if given = PyNone then predict_on e (Frame xp) else Return given) = Return yp"
          "x_left \<noteq> PyNone"
          "contributions_or_shap e (Frame xp) contributions = Return c'"
          "contributions_against e x_left (Frame xp) yp c' = Return (y, m)"
          "data (snd (add_input_contributions e contributions s2)) =
             Some [(''x'', x_left), (''ypred'', Frame y), (''contributions'', NumFrame m),
                   (''x_preprocessed'', Frame xp)]"
          by auto
        have "bundle_from_scratch e x' ypred contributions =
             Return [(''x'', x_left), (''ypred'', Frame y), (''contributions'', NumFrame m),
                     (''x_preprocessed'', Frame xp)]"
          using h p Return g by (simp add: bundle_from_scratch_def bind_def)
        with h ai p Return show ?thesis by auto
      qed
      ultimately show ?thesis by blast
    qed
  qed
  then show "fst (add_input e (Some x) ypred contributions s) =
           bind (bundle_from_scratch e x' ypred contributions) (\<lambda>b. Return ())"
    and "fst (add_input e (Some x) ypred contributions s) = Return () \<Longrightarrow>
         \<exists>x_left xp y m.
           apply_preprocessing_fn e (Frame x') = (Return xp, x_left) \<and> x_left \<noteq> PyNone \<and>
           bundle_from_scratch e x' ypred contributions =
             Return [(''x'', x_left), (''ypred'', Frame y), (''contributions'', NumFrame m),
                     (''x_preprocessed'', Frame xp)] \<and>
           data (snd (add_input e (Some x) ypred contributions s)) =
             Some [(''x'', x_left), (''ypred'', Frame y), (''contributions'', NumFrame m),
                   (''x_preprocessed'', Frame xp)]"
    by simp_all
qed

lemma add_input_validated:
  assumes "fst (add_input e (Some x) ypred contributions s) = Return ()"
  shows "\<exists>x'. bind (check_dataset_type e x) (check_dataset_features e) = Return x'"
proof (cases "bind (check_dataset_type e x) (check_dataset_features e)")
  case (Raise er)
  with assms show ?thesis by (simp add: add_input_invalid)
next
  case (Return x')
  then show ?thesis by simp
qed


lemmas demo_defs = demo_env_def X1_def X2_def X2_left_def X3_def XP1_def XP3_def Y1_def Y3_def
  C1_def C3_def fresh_def init_predictor_def default_mask_params_def

lemmas method_defs = add_input_def add_input_x_def add_input_ypred_def add_input_contributions_def
  compute_contributions_def contributions_guards_def raw_contributions_def match_contributions_def
  predict_def bind_def getitem_def data_getitem_def data_setitem_def check_dataset_type_def
  convert_dict_dataset_def check_dataset_features_def features_order_def getitem_columns_def
  select_columns_def generator_truthy_def clean_data_def apply_preprocessing_def check_ypred_def
  predict_proba_def validate_contributions_def check_contributions_def
  apply_preprocessing_for_contributions_def get_state_def choose_state_def
  adapt_contributions_def adapt_contributions_fn_def

lemma validate_X1:
  "bind (check_dataset_type demo_env (XDataFrame X1)) (check_dataset_features demo_env) = Return X1"
  by (simp add: demo_defs method_defs upto.simps)

lemma validate_X2:
  "bind (check_dataset_type demo_env (XDataFrame X2)) (check_dataset_features demo_env) = Return X2"
  by (simp add: demo_defs method_defs upto.simps)

lemma validate_X3:
  "bind (check_dataset_type demo_env (XDataFrame X3)) (check_dataset_features demo_env) = Return X3"
  by (simp add: demo_defs method_defs upto.simps)

lemma preprocess_X2:
  "apply_preprocessing_fn demo_env (Frame X2) = (Raise (External ''unknown category''), Frame X2_left)"
  by (simp add: demo_defs)

lemma preprocess_X3: "apply_preprocessing_fn demo_env (Frame X3) = (Return XP3, Frame XP3)"
  by (simp add: demo_defs)

lemma add_X1:
  "add_input demo_env (Some (XDataFrame X1)) None None fresh =
     (Return (), fresh\<lparr>data := Some bundle1, state := Some SmartState\<rparr>)"
  by (simp add: demo_defs method_defs upto.simps bundle1_def)

lemma add_X3:
  "add_input demo_env (Some (XDataFrame X3)) None None s_added =
     (Return (), s_added\<lparr>data := Some bundle3\<rparr>)"
  by (simp add: s_added_def demo_defs method_defs upto.simps bundle1_def bundle3_def)

text \<open>
  Claim C2. On a predictor that has no attribute \<^verbatim>\<open>data\<close> (no \<^verbatim>\<open>add_input\<close> has run),
  \<^verbatim>\<open>predict\<close>, \<^verbatim>\<open>compute_contributions\<close>, \<^verbatim>\<open>detail_contributions\<close> and
  \<^verbatim>\<open>summarize\<close> raise the \<^verbatim>\<open>ValueError\<close> that asks for \<^verbatim>\<open>add_input\<close> and leave the
  predictor as it was.
\<close>

theorem call_order_enforced:
  assumes "data s = None"
  shows "predict e s = (Raise (ValueError add_input_first_message), s) \<and>
         compute_contributions e c s = (Raise (ValueError add_input_first_message), s) \<and>
         detail_contributions e c s = (Raise (ValueError add_input_first_message), s) \<and>
         summarize e s = (Raise (ValueError summarize_message), s)"
  using assms
  by (simp add: predict_def compute_contributions_def contributions_guards_def
      detail_contributions_def summarize_def)

theorem call_order_enforced_witness:
  "data fresh = None \<and>
   predict demo_env fresh = (Raise (ValueError add_input_first_message), fresh) \<and>
   compute_contributions demo_env None fresh = (Raise (ValueError add_input_first_message), fresh) \<and>
   detail_contributions demo_env None fresh = (Raise (ValueError add_input_first_message), fresh) \<and>
   summarize demo_env fresh = (Raise (ValueError summarize_message), fresh)"
proof -
  have h: "data fresh = None" by (simp add: fresh_def init_predictor_def)
  from call_order_enforced [OF h, of demo_env None] h show ?thesis by simp
qed

text \<open>
  Claim C7. When \<^verbatim>\<open>add_input\<close> gets a new \<^verbatim>\<open>x\<close> that passes the dataset checks and the
  preprocessing raises any error at all, \<^verbatim>\<open>add_input\<close> raises, and what it raises is the
  one \<^verbatim>\<open>ValueError\<close> whose message blames the preprocessing or the dataset, not the
  error of the preprocessing.
\<close>

theorem preprocessing_failure_translated:
  assumes "bind (check_dataset_type e x) (check_dataset_features e) = Return x'"
    and "fst (apply_preprocessing_fn e (Frame x')) = Raise er"
  shows "fst (add_input e (Some x) ypred contributions s) = Raise (ValueError preprocessing_message)"
proof -
  from assms(2) obtain x_left where "apply_preprocessing_fn e (Frame x') = (Raise er, x_left)"
    by (cases "apply_preprocessing_fn e (Frame x')") simp
  from add_input_preprocessing_fails [OF assms(1) this] show ?thesis by simp
qed

theorem preprocessing_failure_translated_witness:
  "bind (check_dataset_type demo_env (XDataFrame X2)) (check_dataset_features demo_env) = Return X2 \<and>
   fst (apply_preprocessing_fn demo_env (Frame X2)) = Raise (External ''unknown category'') \<and>
   fst (add_input demo_env (Some (XDataFrame X2)) None None fresh) =
     Raise (ValueError preprocessing_message)"
proof -
  have p: "fst (apply_preprocessing_fn demo_env (Frame X2)) = Raise (External ''unknown category'')"
    by (simp add: preprocess_X2)
  from preprocessing_failure_translated [OF validate_X2 p, of None None fresh] validate_X2 p
  show ?thesis by simp
qed

text \<open>
  Claim C1, as amended. A new \<^verbatim>\<open>x\<close> that fails the dataset checks leaves the predictor
  as it was. A new \<^verbatim>\<open>x\<close> that passes them and then fails in the preprocessing does
  not: the bundle stored before is gone, and the stored bundle is the one that
  \<^verbatim>\<open>clean_data\<close> built for the new \<^verbatim>\<open>x\<close>, with \<^verbatim>\<open>None\<close> for \<^verbatim>\<open>ypred\<close>,
  \<^verbatim>\<open>contributions\<close> and \<^verbatim>\<open>x_preprocessed\<close>, and with the table \<^verbatim>\<open>x\<close> in whatever
  state the failed preprocessing has left it, since the preprocessing works on the stored
  table. The other attributes are unchanged.
\<close>

theorem failed_add_input_replaces_bundle:
  "(bind (check_dataset_type e x) (check_dataset_features e) = Raise er \<longrightarrow>
      add_input e (Some x) ypred contributions s = (Raise er, s)) \<and>
   (bind (check_dataset_type e x) (check_dataset_features e) = Return x' \<and>
    apply_preprocessing_fn e (Frame x') = (Raise er, x_left) \<longrightarrow>
      add_input e (Some x) ypred contributions s =
        (Raise (ValueError preprocessing_message),
         s\<lparr>data := Some [(''x'', x_left), (''ypred'', PyNone), (''contributions'', PyNone),
                          (''x_preprocessed'', PyNone)]\<rparr>))"
  using add_input_invalid [of e x er ypred contributions s]
    add_input_preprocessing_fails [of e x x' er x_left ypred contributions s]
  by blast

theorem failed_add_input_replaces_bundle_witness:
  "add_input demo_env (Some (XDataFrame X2)) None None (fresh\<lparr>data := Some bundle1\<rparr>) =
     (Raise (ValueError preprocessing_message),
      fresh\<lparr>data := Some [(''x'', Frame X2_left), (''ypred'', PyNone), (''contributions'', PyNone),
                           (''x_preprocessed'', PyNone)]\<rparr>) \<and>
   X2_left \<noteq> X2 \<and>
   add_input demo_env (Some XOther) None None (fresh\<lparr>data := Some bundle1\<rparr>) =
     (Raise (ValueError ''x must be a dict or a pandas.DataFrame.''), fresh\<lparr>data := Some bundle1\<rparr>)"
proof -
  have inv: "bind (check_dataset_type demo_env XOther) (check_dataset_features demo_env) =
      Raise (ValueError ''x must be a dict or a pandas.DataFrame.'')"
    by (simp add: check_dataset_type_def bind_def)
  have ne: "X2_left \<noteq> X2" by (simp add: X2_left_def X2_def)
  from failed_add_input_replaces_bundle
    [of demo_env "XDataFrame X2" "External ''unknown category''" None None
      "fresh\<lparr>data := Some bundle1\<rparr>" X2 "Frame X2_left"]
    failed_add_input_replaces_bundle
    [of demo_env XOther "ValueError ''x must be a dict or a pandas.DataFrame.''" None None
      "fresh\<lparr>data := Some bundle1\<rparr>" X2 "Frame X2_left"]
    validate_X2 preprocess_X2 inv ne
  show ?thesis by simp
qed

text \<open>
  Claim C1, as stated, fails: after a successful \<^verbatim>\<open>add_input\<close> of \<open>X1\<close>, an
  \<^verbatim>\<open>add_input\<close> of \<open>X2\<close> whose preprocessing fails raises, and the stored bundle is no
  longer the one of \<open>X1\<close>: its \<^verbatim>\<open>ypred\<close> and \<^verbatim>\<open>contributions\<close> are \<^verbatim>\<open>None\<close>, and
  its \<^verbatim>\<open>x\<close> is the half-encoded table of \<open>X2\<close>.
\<close>

theorem failed_add_input_not_atomic:
  "add_input demo_env (Some (XDataFrame X1)) None None fresh =
     (Return (), fresh\<lparr>data := Some bundle1, state := Some SmartState\<rparr>) \<and>
   fst (add_input demo_env (Some (XDataFrame X2)) None None
          (fresh\<lparr>data := Some bundle1, state := Some SmartState\<rparr>)) =
     Raise (ValueError preprocessing_message) \<and>
   data (snd (add_input demo_env (Some (XDataFrame X2)) None None
          (fresh\<lparr>data := Some bundle1, state := Some SmartState\<rparr>))) \<noteq>
     data (fresh\<lparr>data := Some bundle1, state := Some SmartState\<rparr>) \<and>
   data_getitem (fresh\<lparr>data := Some bundle1, state := Some SmartState\<rparr>) ''ypred'' =
     Return (Frame Y1) \<and>
   data_getitem (snd (add_input demo_env (Some (XDataFrame X2)) None None
          (fresh\<lparr>data := Some bundle1, state := Some SmartState\<rparr>))) ''ypred'' = Return PyNone \<and>
   data_getitem (fresh\<lparr>data := Some bundle1, state := Some SmartState\<rparr>) ''contributions'' =
     Return (NumFrame C1) \<and>
   data_getitem (snd (add_input demo_env (Some (XDataFrame X2)) None None
          (fresh\<lparr>data := Some bundle1, state := Some SmartState\<rparr>))) ''contributions'' =
     Return PyNone \<and>
   data_getitem (snd (add_input demo_env (Some (XDataFrame X2)) None None
          (fresh\<lparr>data := Some bundle1, state := Some SmartState\<rparr>))) ''x'' =
     Return (Frame X2_left)"
  by (simp add: add_X1 add_input_preprocessing_fails [OF validate_X2 preprocess_X2]
      data_getitem_def getitem_def bundle1_def)

text \<open>
  Claim C4. Let \<^verbatim>\<open>add_input\<close> with a new \<^verbatim>\<open>x\<close> succeed on a predictor \<open>s\<close> and leave
  \<open>s'\<close>. Then nothing of the bundle stored before is left or has been used:
  \<^item> the call gives the same result and the same predictor from \<open>s\<close> with any other bundle
    \<open>d\<close> (or none) in place of its own, and from any predictor \<open>s0\<close> at all it succeeds and
    leaves the same bundle;
  \<^item> the bundle of \<open>s'\<close> is the bundle computed from scratch for the checked new \<^verbatim>\<open>x\<close>:
    the table as its preprocessing has left it, the preprocessed table, and the
    prediction and contributions computed against these;
  \<^item> any \<^verbatim>\<open>compute_contributions\<close> that follows computes the contributions (those handed
    over, or those of the explainer on the new preprocessed table) against the new table,
    its preprocessing and the prediction stored for it, and leaves the bundle as it is.
\<close>

theorem add_input_new_x_resets:
  assumes "add_input e (Some x) ypred contributions s = (Return (), s')"
  shows "add_input e (Some x) ypred contributions (s\<lparr>data := d\<rparr>) = (Return (), s') \<and>
         fst (add_input e (Some x) ypred contributions s0) = Return () \<and>
         data (snd (add_input e (Some x) ypred contributions s0)) = data s' \<and>
         (\<exists>x' x_left xp y m.
            bind (check_dataset_type e x) (check_dataset_features e) = Return x' \<and>
            apply_preprocessing_fn e (Frame x') = (Return xp, x_left) \<and>
            bundle_from_scratch e x' ypred contributions =
              Return [(''x'', x_left), (''ypred'', Frame y), (''contributions'', NumFrame m),
                      (''x_preprocessed'', Frame xp)] \<and>
            data s' =
              Some [(''x'', x_left), (''ypred'', Frame y), (''contributions'', NumFrame m),
                    (''x_preprocessed'', Frame xp)] \<and>
            (\<forall>c. fst (compute_contributions e c s') =
                    bind (contributions_or_shap e (Frame xp) c)
                      (contributions_against e x_left (Frame xp) (Frame y)) \<and>
                  data (snd (compute_contributions e c s')) = data s'))"
proof -
  from assms have ok: "fst (add_input e (Some x) ypred contributions s) = Return ()"
    and s': "snd (add_input e (Some x) ypred contributions s) = s'"
    by simp_all
  from add_input_validated [OF ok]
  obtain x' where v: "bind (check_dataset_type e x) (check_dataset_features e) = Return x'" ..
  from add_input_from_scratch(2) [OF v ok] s'
  obtain x_left xp y m where b:
    "apply_preprocessing_fn e (Frame x') = (Return xp, x_left)" "x_left \<noteq> PyNone"
    "bundle_from_scratch e x' ypred contributions =
       Return [(''x'', x_left), (''ypred'', Frame y), (''contributions'', NumFrame m),
               (''x_preprocessed'', Frame xp)]"
    "data s' = Some [(''x'', x_left), (''ypred'', Frame y), (''contributions'', NumFrame m),
                     (''x_preprocessed'', Frame xp)]"
    by auto
  have ok0: "fst (add_input e (Some x) ypred contributions s0) = Return ()"
    using add_input_from_scratch(1) [OF v, of ypred contributions s0] b(3)
    by (simp add: bind_def)
  from add_input_from_scratch(2) [OF v ok0] b(1) b(3) b(4)
  have d0: "data (snd (add_input e (Some x) ypred contributions s0)) = data s'"
    by auto
  have c: "fst (compute_contributions e c s') =
             bind (contributions_or_shap e (Frame xp) c)
               (contributions_against e x_left (Frame xp) (Frame y)) \<and>
           data (snd (compute_contributions e c s')) = data s'" for c
    using compute_contributions_bundle [OF b(4), of e c] b(2) by (simp add: bind_def)
  from add_input_forgets_data [OF ok, of d] assms
  have "add_input e (Some x) ypred contributions (s\<lparr>data := d\<rparr>) = (Return (), s')"
    by simp
  with ok0 d0 v b c show ?thesis by blast
qed

text \<open>In the concrete setting: the predictor holds the bundle of \<open>X1\<close>, with its prediction
  \<open>Y1\<close> and its contributions \<open>C1\<close>; \<^verbatim>\<open>add_input(x=X3)\<close> leaves the bundle of \<open>X3\<close>, the
  same as on a fresh predictor, and \<^verbatim>\<open>compute_contributions\<close> then returns the prediction
  and the contributions of \<open>X3\<close>.\<close>

theorem add_input_new_x_resets_witness:
  "data s_added = Some bundle1 \<and>
   add_input demo_env (Some (XDataFrame X3)) None None s_added =
     (Return (), s_added\<lparr>data := Some bundle3\<rparr>) \<and>
   add_input demo_env (Some (XDataFrame X3)) None None (s_added\<lparr>data := None\<rparr>) =
     (Return (), s_added\<lparr>data := Some bundle3\<rparr>) \<and>
   data (snd (add_input demo_env (Some (XDataFrame X3)) None None fresh)) = Some bundle3 \<and>
   bundle_from_scratch demo_env X3 None None = Return bundle3 \<and>
   fst (compute_contributions demo_env None (s_added\<lparr>data := Some bundle3\<rparr>)) = Return (Y3, C3) \<and>
   data (snd (compute_contributions demo_env None (s_added\<lparr>data := Some bundle3\<rparr>))) =
     Some bundle3 \<and>
   Y3 \<noteq> Y1 \<and> C3 \<noteq> C1"
proof -
  have d: "data s_added = Some bundle1" by (simp add: s_added_def)
  have ne: "Y3 \<noteq> Y1" "C3 \<noteq> C1" by (simp_all add: Y3_def Y1_def C3_def C1_def)
  have ca: "bind (contributions_or_shap demo_env (Frame XP3) None)
              (contributions_against demo_env (Frame XP3) (Frame XP3) (Frame Y3)) = Return (Y3, C3)"
    by (simp add: contributions_or_shap_def contributions_against_def demo_defs bind_def
        adapt_contributions_def adapt_contributions_fn_def choose_state_def)
  from add_input_new_x_resets [OF add_X3, of None fresh] validate_X3 preprocess_X3
  obtain y m where t:
    "add_input demo_env (Some (XDataFrame X3)) None None (s_added\<lparr>data := None\<rparr>) =
       (Return (), s_added\<lparr>data := Some bundle3\<rparr>)"
    "data (snd (add_input demo_env (Some (XDataFrame X3)) None None fresh)) = Some bundle3"
    "bundle_from_scratch demo_env X3 None None =
       Return [(''x'', Frame XP3), (''ypred'', Frame y), (''contributions'', NumFrame m),
               (''x_preprocessed'', Frame XP3)]"
    "Some bundle3 =
       Some [(''x'', Frame XP3), (''ypred'', Frame y), (''contributions'', NumFrame m),
             (''x_preprocessed'', Frame XP3)]"
    "\<forall>c. fst (compute_contributions demo_env c (s_added\<lparr>data := Some bundle3\<rparr>)) =
           bind (contributions_or_shap demo_env (Frame XP3) c)
             (contributions_against demo_env (Frame XP3) (Frame XP3) (Frame y)) \<and>
         data (snd (compute_contributions demo_env c (s_added\<lparr>data := Some bundle3\<rparr>))) =
           Some bundle3"
    by auto
  from t(4) have ym: "y = Y3" "m = C3" by (simp_all add: bundle3_def)
  from t(5) ym ca
  have "fst (compute_contributions demo_env None (s_added\<lparr>data := Some bundle3\<rparr>)) =
          Return (Y3, C3)"
    "data (snd (compute_contributions demo_env None (s_added\<lparr>data := Some bundle3\<rparr>))) =
          Some bundle3"
    by simp_all
  with t(1-3) ym d ne add_X3 show ?thesis
    by (simp add: bundle3_def)
qed

lemma adapt_contributions_list:
  "adapt_contributions e (TableList ts) = TableList ts"
  by (simp add: adapt_contributions_def adapt_contributions_fn_def)

lemma adapt_contributions_table:
  "adapt_contributions e (Table t) =
     (if model_case e = ''classification'' then TableList [neg_table t, t] else Table t)"
  by (simp add: adapt_contributions_def adapt_contributions_fn_def)

lemma compute_contributions_adapted:
  "model_case e = ''classification'' \<Longrightarrow>
   compute_contributions e (Some (Table t)) s =
     compute_contributions e (Some (TableList [neg_table t, t])) s"
  by (simp add: compute_contributions_def raw_contributions_def adapt_contributions_list
      adapt_contributions_table split: prod.splits result.splits)

text \<open>
  Claim C5. For a classifier, a single contribution table \<open>t\<close> is turned into the
  two-element list \<open>[-t, t]\<close> before anything else looks at it, so
  \<^verbatim>\<open>compute_contributions\<close>, \<^verbatim>\<open>detail_contributions\<close> and \<^verbatim>\<open>add_input\<close> behave on \<open>t\<close>
  exactly as on \<open>[-t, t]\<close>; for a regression the contributions are passed through
  unchanged.
\<close>

theorem single_table_adaptation:
  "(model_case e = ''classification'' \<longrightarrow>
      adapt_contributions e (Table t) = TableList [neg_table t, t] \<and>
      compute_contributions e (Some (Table t)) s =
        compute_contributions e (Some (TableList [neg_table t, t])) s \<and>
      detail_contributions e (Some (Table t)) s =
        detail_contributions e (Some (TableList [neg_table t, t])) s \<and>
      add_input e x ypred (Some (Table t)) s =
        add_input e x ypred (Some (TableList [neg_table t, t])) s) \<and>
   (model_case e = ''regression'' \<longrightarrow> adapt_contributions e c = c)"
proof -
  have "adapt_contributions e c = c" if "model_case e = ''regression''"
    using that by (cases c) (simp_all add: adapt_contributions_list adapt_contributions_table)
  moreover have "add_input_contributions e (Some (Table t)) s' =
      add_input_contributions e (Some (TableList [neg_table t, t])) s'"
    if "model_case e = ''classification''" for s'
    using that by (simp add: add_input_contributions_def compute_contributions_adapted)
  ultimately show ?thesis
    by (simp add: compute_contributions_adapted adapt_contributions_table
        detail_contributions_def add_input_def split: prod.splits result.splits)
qed

theorem single_table_adaptation_witness:
  "model_case demo_class_env = ''classification'' \<and>
   adapt_contributions demo_class_env (Table C1) =
     TableList [DataFrame [0] [(''Age'', ''float64'', [- (1 / 2)]), (''Sex'', ''float64'', [1 / 4])], C1] \<and>
   compute_contributions demo_class_env (Some (Table C1)) (fresh\<lparr>data := Some bundle1\<rparr>) =
     compute_contributions demo_class_env (Some (TableList [neg_table C1, C1]))
       (fresh\<lparr>data := Some bundle1\<rparr>) \<and>
   model_case demo_env = ''regression'' \<and>
   adapt_contributions demo_env (Table C1) = Table C1"
  using single_table_adaptation [of demo_class_env C1 "fresh\<lparr>data := Some bundle1\<rparr>" None None "Table C1"]
    single_table_adaptation [of demo_env C1 fresh None None "Table C1"]
  by (simp add: demo_class_env_def demo_env_def neg_table_def C1_def)

lemma check_dataset_features_never_types:
  "check_dataset_features e x \<noteq> Raise (ValueError types_message)"
proof -
  have b: "lookup_orders cd os \<noteq> Raise (ValueError m)" for cd os m
    by (induction os) (auto simp: bind_def split: option.splits result.splits)
  have c: "features_order cd \<noteq> Raise (ValueError types_message)" for cd
    using b by (simp add: features_order_def types_message_def split: list.splits)
  show ?thesis
    using c
    by (auto simp: check_dataset_features_def generator_truthy_def bind_def getitem_columns_def
        types_message_def split: x_input.splits result.splits if_splits)
qed

text \<open>
  Claim C6 fails on the code. The setting declares \<^verbatim>\<open>float64\<close> for \<open>Age\<close>; the
  dataset \<open>X_int\<close> has dtype \<^verbatim>\<open>int64\<close> there, and \<^verbatim>\<open>check_dataset_features\<close> returns it
  (reordered) instead of raising. The lemma before shows that the \<^verbatim>\<open>ValueError\<close> about
  types is never raised at all.
\<close>

theorem dtype_mismatch_accepted:
  "map_of (features_types demo_env) ''Age'' = Some ''float64'' \<and>
   check_dataset_features demo_env (XDataFrame X_int) =
     Return (DataFrame [0] [(''Age'', ''int64'', [I 30]), (''Sex'', ''object'', [S ''f''])])"
  by (simp add: demo_env_def X_int_def check_dataset_features_def features_order_def
      getitem_columns_def select_columns_def generator_truthy_def bind_def upto.simps)


lemma active_masks_threshold_raises:
  assumes "summary s = Some sm"
    and "getitem (mask_params s) ''features_to_hide'' = Return PNone"
    and "getitem (mask_params s) ''threshold'' = Return th" and "th \<noteq> PNone"
    and "data_getitem s ''contrib_sorted'' = Raise er"
  shows "active_masks e s = Raise er"
  using assms by (simp add: active_masks_def bind_def)

lemma rank_summary_summary [simp]:
  "rank_summary e (s\<lparr>summary := x\<rparr>) = rank_summary e s"
  by (simp add: rank_summary_def data_getitem_def)

lemma summarize_threshold_raises:
  assumes "data s \<noteq> None" and "rank_summary e s = Return sm"
    and "getitem (mask_params s) ''features_to_hide'' = Return PNone"
    and "getitem (mask_params s) ''threshold'' = Return th" and "th \<noteq> PNone"
    and "data_getitem s ''contrib_sorted'' = Raise er"
  shows "summarize e s = (Raise er, s\<lparr>summary := Some sm\<rparr>)"
proof -
  have "active_masks e (s\<lparr>summary := Some sm\<rparr>) = Raise er"
    using assms by (intro active_masks_threshold_raises [where sm = sm and th = th]) (simp_all add: data_getitem_def)
  then show ?thesis
    using assms by (auto simp: summarize_def filter_predictor_def)
qed

lemma add_input_other_keys:
  assumes "fst (add_input e (Some x) ypred contributions s) = Return ()"
    and "k \<notin> {''x'', ''ypred'', ''contributions'', ''x_preprocessed''}"
  shows "data_getitem (snd (add_input e (Some x) ypred contributions s)) k = Raise (KeyError (S k))"
proof (cases rule: add_input_x_cases [of e x])
  case (invalid er)
  with assms show ?thesis by (simp add: add_input_invalid)
next
  case (fails x' er x_left)
  with assms show ?thesis by (simp add: add_input_preprocessing_fails)
next
  case (succeeds x' xp x_left)
  let ?s1 = "s\<lparr>data := Some [(''x'', x_left), (''ypred'', PyNone), (''contributions'', PyNone),
                       (''x_preprocessed'', Frame xp)]\<rparr>"
  have eq: "add_input e (Some x) ypred contributions s =
     (case add_input_ypred e ypred ?s1 of
        (Raise er, s2) \<Rightarrow> (Raise er, s2)
      | (Return u, s2) \<Rightarrow> add_input_contributions e contributions s2)"
    by (simp add: add_input_def add_input_x_succeeds [OF succeeds])
  have g: "data_getitem ?s1 k = Raise (KeyError (S k))"
    using assms(2) by (simp add: data_getitem_def getitem_def)
  have "data_getitem (snd (add_input e (Some x) ypred contributions s)) k = data_getitem ?s1 k"
  proof (cases "add_input_ypred e ypred ?s1")
    case (Pair r s2)
    with assms(2) add_input_ypred_frame [of k e ypred ?s1]
      add_input_contributions_frame [of k e contributions s2]
    show ?thesis
      by (cases r) (simp_all add: eq)
  qed
  with g show ?thesis by simp
qed

text \<open>
  Claim C3 fails on the code. With only the threshold set, \<^verbatim>\<open>summarize\<close> on the bundle
  that \<^verbatim>\<open>add_input\<close> has just built raises \<^verbatim>\<open>KeyError('contrib_sorted')\<close>: \<^verbatim>\<open>filter\<close>
  reads the ranked contributions from \<^verbatim>\<open>self.data\<close>, which never has that key, where
  the other branches read \<^verbatim>\<open>self.summary\<close>. No mask is built. The lemmas before show the
  same for every environment and every bundle of \<^verbatim>\<open>add_input\<close>.
\<close>

theorem threshold_filter_raises:
  "fst (add_input demo_env (Some (XDataFrame X1)) None None (init_predictor threshold_params)) =
     Return () \<and>
   getitem (mask_params (snd (add_input demo_env (Some (XDataFrame X1)) None None
       (init_predictor threshold_params)))) ''threshold'' = Return (PFloat (1 / 2)) \<and>
   fst (summarize demo_env (snd (add_input demo_env (Some (XDataFrame X1)) None None
       (init_predictor threshold_params)))) = Raise (KeyError (S ''contrib_sorted''))"
proof -
  let ?s0 = "init_predictor threshold_params"
  have a: "add_input demo_env (Some (XDataFrame X1)) None None ?s0 =
     (Return (), ?s0\<lparr>data := Some bundle1, state := Some SmartState\<rparr>)"
    by (simp add: demo_defs method_defs upto.simps bundle1_def)
  let ?s1 = "?s0\<lparr>data := Some bundle1, state := Some SmartState\<rparr>"
  have r: "rank_summary demo_env ?s1 = Return (assign_contributions (C1, XP1,
      DataFrame (df_index C1) [(''Age'', ''int64'', [0]), (''Sex'', ''int64'', [1])]))"
    by (simp add: rank_summary_def data_getitem_def getitem_def bundle1_def bind_def demo_env_def)
  have "summarize demo_env ?s1 = (Raise (KeyError (S ''contrib_sorted'')),
      ?s1\<lparr>summary := Some (assign_contributions (C1, XP1,
      DataFrame (df_index C1) [(''Age'', ''int64'', [0]), (''Sex'', ''int64'', [1])]))\<rparr>)"
    by (rule summarize_threshold_raises [OF _ r, where th = "PFloat (1 / 2)"])
      (simp_all add: init_predictor_def threshold_params_def getitem_def data_getitem_def
        bundle1_def)
  with a show ?thesis
    by (simp add: init_predictor_def threshold_params_def getitem_def)
qed

lemma cutoff_mask_fields:
  "data (snd (cutoff_mask e s)) = data s"
  "mask_params (snd (cutoff_mask e s)) = mask_params s"
  "summary (snd (cutoff_mask e s)) = summary s"
  by (simp_all add: cutoff_mask_def split: result.splits option.splits)

lemma filter_predictor_fields:
  "data (snd (filter_predictor e s)) = data s"
  "mask_params (snd (filter_predictor e s)) = mask_params s"
  "summary (snd (filter_predictor e s)) = summary s"
proof -
  have "data (snd (filter_predictor e s)) = data s \<and>
        mask_params (snd (filter_predictor e s)) = mask_params s \<and>
        summary (snd (filter_predictor e s)) = summary s"
  proof (cases "active_masks e s")
    case (Raise er)
    then show ?thesis by (simp add: filter_predictor_def)
  next
    case (Return masks)
    obtain r s1 where c: "cutoff_mask e (s\<lparr>mask := Some (combine_masks masks)\<rparr>) = (r, s1)"
      by (cases "cutoff_mask e (s\<lparr>mask := Some (combine_masks masks)\<rparr>)")
    from cutoff_mask_fields [of e "s\<lparr>mask := Some (combine_masks masks)\<rparr>"] c
    have "data s1 = data s" "mask_params s1 = mask_params s" "summary s1 = summary s"
      by simp_all
    with Return c show ?thesis
      by (cases r) (auto simp: filter_predictor_def split: option.splits result.splits)
  qed
  then show "data (snd (filter_predictor e s)) = data s"
    "mask_params (snd (filter_predictor e s)) = mask_params s"
    "summary (snd (filter_predictor e s)) = summary s"
    by simp_all
qed


lemma summarize_mask_params: "mask_params (snd (summarize e s)) = mask_params s"
proof (cases "rank_summary e s")
  case (Raise er)
  then show ?thesis by (simp add: summarize_def)
next
  case (Return sm)
  obtain r s1 where f: "filter_predictor e (s\<lparr>summary := Some sm\<rparr>) = (r, s1)"
    by (cases "filter_predictor e (s\<lparr>summary := Some sm\<rparr>)")
  from filter_predictor_fields(2) [of e "s\<lparr>summary := Some sm\<rparr>"] f
  have "mask_params s1 = mask_params s" by simp
  with Return f show ?thesis
    by (cases r) (auto simp: summarize_def Let_def data_setitem_fields split: result.splits)
qed



























end
